theory Spec2Isabelle
  imports Complex_Main "HOL-Library.Word"
begin

section \<open>Scalars, sizes and vectors of MPC.cpp\<close>

text \<open>
  The controller core is the single file \<^verbatim>\<open>src/MPC.cpp\<close>: the evaluator class
  \<^verbatim>\<open>FG_eval\<close> (cost and constraint residuals of the nonlinear program) and the driver
  \<^verbatim>\<open>MPC::Solve\<close>.

  \<^item> \<^verbatim>\<open>size_t\<close> is a 64-bit word: \<open>+\<close>, \<open>-\<close> and \<open>*\<close> wrap around, as the
    unsigned arithmetic of the source does (\<^verbatim>\<open>N - 2\<close> with \<^verbatim>\<open>N = 1\<close> is a huge
    number, not zero).
  \<^item> \<^verbatim>\<open>double\<close> and \<^verbatim>\<open>AD<double>\<close> are idealised as \<open>real\<close>: rounding,
    infinities and NaN are not modelled, and neither is the derivative tape that
    \<^verbatim>\<open>AD<double>\<close> records. \<^verbatim>\<open>pow(x, 2)\<close> is \<open>x ^ 2\<close>.
  \<^item> \<^verbatim>\<open>CPPAD_TESTVECTOR(T)\<close>, \<^verbatim>\<open>Eigen::VectorXd\<close> and \<^verbatim>\<open>std::vector\<close> are
    lists. Indexing with \<^verbatim>\<open>[]\<close> outside the vector trips the library's assertion
    (undefined behaviour when assertions are compiled out); the model makes it the
    error value \<open>OutOfRange\<close> of the vector concerned.
  \<^item> Division of reals by zero has no value in the idealised arithmetic; the model
    makes it the error value \<open>DivisionByZero\<close>.
\<close>

type_synonym size_t = "64 word"

datatype vec = Fg | Vars | Coeffs | State | VarsLower | VarsUpper
  | ConstraintsLower | ConstraintsUpper | SolutionX

datatype error = OutOfRange vec | DivisionByZero

definition err_bind :: "error + 'a \<Rightarrow> ('a \<Rightarrow> error + 'b) \<Rightarrow> error + 'b" where
  "err_bind m f = (case m of Inl e \<Rightarrow> Inl e | Inr a \<Rightarrow> f a)"

text \<open>\<^verbatim>\<open>v[i]\<close> as an rvalue and \<^verbatim>\<open>v[i] = a\<close>, on the vector called \<open>nm\<close>.\<close>

definition vec_get :: "vec \<Rightarrow> real list \<Rightarrow> size_t \<Rightarrow> error + real" where
  "vec_get nm v i = (if unat i < length v then Inr (v ! unat i) else Inl (OutOfRange nm))"

definition vec_set :: "vec \<Rightarrow> real list \<Rightarrow> size_t \<Rightarrow> real \<Rightarrow> error + real list" where
  "vec_set nm v i a = (if unat i < length v then Inr (v[unat i := a]) else Inl (OutOfRange nm))"

text \<open>\<^verbatim>\<open>v[i] += a\<close>.\<close>

definition vec_add_to :: "vec \<Rightarrow> real list \<Rightarrow> size_t \<Rightarrow> real \<Rightarrow> error + real list" where
  "vec_add_to nm v i a = err_bind (vec_get nm v i) (\<lambda>old. vec_set nm v i (old + a))"

text \<open>\<^verbatim>\<open>a / b\<close> on scalars.\<close>

definition divide_checked :: "real \<Rightarrow> real \<Rightarrow> error + real" where
  "divide_checked a b = (if b = 0 then Inl DivisionByZero else Inr (a / b))"

text \<open>
  \<^verbatim>\<open>for (size_t i = i0; i < n; i++) body\<close>, the body acting on the state \<open>s\<close> of the
  vectors it assigns. An error in the body ends the loop.
\<close>

function for_loop :: "size_t \<Rightarrow> size_t \<Rightarrow> (size_t \<Rightarrow> 's \<Rightarrow> error + 's) \<Rightarrow> 's \<Rightarrow> error + 's" where
  "for_loop i n body s =
     (if i < n
      then (case body i s of Inl e \<Rightarrow> Inl e | Inr s' \<Rightarrow> for_loop (i + 1) n body s')
      else Inr s)"
  by pat_completeness auto
termination
proof (relation "measure (\<lambda>(i, n, body, s). unat n - unat i)")
  show "wf (measure (\<lambda>(i :: size_t, n :: size_t, body :: size_t \<Rightarrow> 's \<Rightarrow> error + 's, s :: 's). unat n - unat i))"
    by simp
next
  fix i n :: size_t and body :: "size_t \<Rightarrow> 's \<Rightarrow> error + 's" and s x2 :: 's
  assume "i < n"
  then have lt: "unat i < unat n"
    by (simp add: word_less_nat_alt)
  moreover have "unat n < 2 ^ 64"
    using unsigned_less [of n] by simp
  ultimately have "Suc (unat i) < 2 ^ 64"
    by linarith
  then have "unat (i + 1) = Suc (unat i)"
    by (simp add: unat_word_ariths)
  with lt show "((i + 1, n, body, x2), (i, n, body, s)) \<in> measure (\<lambda>(i, n, body, s). unat n - unat i)"
    by simp
qed

declare for_loop.simps [simp del]

section \<open>The constants of the source\<close>

text \<open>
  \<^verbatim>\<open>const size_t N = 15;\<close> is the horizon. The offsets and both functions below take
  the horizon as their first argument \<open>n\<close>, so that the layout can also be examined
  at other horizons; the program is the instance \<open>n = N\<close>.
\<close>

definition N :: size_t where
  "N = 15"

definition dt :: real where
  "dt = 0.1"

definition cost_cte_factor :: int where
  "cost_cte_factor = 3000"

definition cost_epsi_factor :: int where
  "cost_epsi_factor = 500"

definition cost_v_factor :: int where
  "cost_v_factor = 1"

definition cost_current_delta_factor :: int where
  "cost_current_delta_factor = 1"

definition cost_diff_delta_factor :: int where
  "cost_diff_delta_factor = 200"

definition cost_current_a_factor :: int where
  "cost_current_a_factor = 1"

definition cost_diff_a_factor :: int where
  "cost_diff_a_factor = 1"

definition Lf :: real where
  "Lf = 2.67"

definition ref_cte :: real where
  "ref_cte = 0"

definition ref_epsi :: real where
  "ref_epsi = 0"

definition ref_v :: real where
  "ref_v = 40"

definition x_start :: size_t where
  "x_start = 0"

definition y_start :: "size_t \<Rightarrow> size_t" where
  "y_start n = x_start + n"

definition psi_start :: "size_t \<Rightarrow> size_t" where
  "psi_start n = y_start n + n"

definition v_start :: "size_t \<Rightarrow> size_t" where
  "v_start n = psi_start n + n"

definition cte_start :: "size_t \<Rightarrow> size_t" where
  "cte_start n = v_start n + n"

definition epsi_start :: "size_t \<Rightarrow> size_t" where
  "epsi_start n = cte_start n + n"

definition delta_start :: "size_t \<Rightarrow> size_t" where
  "delta_start n = epsi_start n + n"

definition a_start :: "size_t \<Rightarrow> size_t" where
  "a_start n = delta_start n + n - 1"

text \<open>The sizes \<^verbatim>\<open>n_vars\<close> and \<^verbatim>\<open>n_constraints\<close> that \<^verbatim>\<open>Solve\<close> computes.\<close>

definition n_vars :: "size_t \<Rightarrow> size_t" where
  "n_vars n = 6 * n + 2 * (n - 1)"

definition n_constraints :: "size_t \<Rightarrow> size_t" where
  "n_constraints n = 6 * n"

text \<open>
  Modelled from the spec: \<^verbatim>\<open>M_PI\<close> is a macro of \<^verbatim>\<open><cmath>\<close>, which is not part of
  the repository; the steering bound it is used for is \<open>\<pi>/8\<close>.
\<close>

definition M_PI :: real where
  "M_PI = pi"

section \<open>The problem formulator: \<^verbatim>\<open>FG_eval\<close>\<close>

record FG_eval =
  coeffs :: "real list"

text \<open>Body of the first cost loop (reference state), lines 80 to 84.\<close>

definition cost_reference :: "size_t \<Rightarrow> real list \<Rightarrow> size_t \<Rightarrow> real list \<Rightarrow> error + real list" where
  "cost_reference n vars i fg =
     err_bind (vec_get Vars vars (cte_start n + i)) (\<lambda>cte.
     err_bind (vec_add_to Fg fg 0 (real_of_int cost_cte_factor * (cte - ref_cte) ^ 2)) (\<lambda>fg.
     err_bind (vec_get Vars vars (epsi_start n + i)) (\<lambda>epsi.
     err_bind (vec_add_to Fg fg 0 (real_of_int cost_epsi_factor * (epsi - ref_epsi) ^ 2)) (\<lambda>fg.
     err_bind (vec_get Vars vars (v_start n + i)) (\<lambda>v.
     vec_add_to Fg fg 0 (real_of_int cost_v_factor * (v - ref_v) ^ 2))))))"

text \<open>Body of the second cost loop (use of actuators), lines 87 to 90.\<close>

definition cost_actuators :: "size_t \<Rightarrow> real list \<Rightarrow> size_t \<Rightarrow> real list \<Rightarrow> error + real list" where
  "cost_actuators n vars i fg =
     err_bind (vec_get Vars vars (delta_start n + i)) (\<lambda>delta.
     err_bind (vec_add_to Fg fg 0 (real_of_int cost_current_delta_factor * delta ^ 2)) (\<lambda>fg.
     err_bind (vec_get Vars vars (a_start n + i)) (\<lambda>a.
     vec_add_to Fg fg 0 (real_of_int cost_current_a_factor * a ^ 2))))"

text \<open>Body of the third cost loop (gap between sequential actuations), lines 93 to 96.\<close>

definition cost_gap :: "size_t \<Rightarrow> real list \<Rightarrow> size_t \<Rightarrow> real list \<Rightarrow> error + real list" where
  "cost_gap n vars i fg =
     err_bind (vec_get Vars vars (delta_start n + i + 1)) (\<lambda>delta1.
     err_bind (vec_get Vars vars (delta_start n + i)) (\<lambda>delta0.
     err_bind (vec_add_to Fg fg 0 (real_of_int cost_diff_delta_factor * (delta1 - delta0) ^ 2)) (\<lambda>fg.
     err_bind (vec_get Vars vars (a_start n + i + 1)) (\<lambda>a1.
     err_bind (vec_get Vars vars (a_start n + i)) (\<lambda>a0.
     vec_add_to Fg fg 0 (real_of_int cost_diff_a_factor * (a1 - a0) ^ 2))))))"

text \<open>The six assignments of the initial state, lines 104 to 109.\<close>

definition initial_state :: "size_t \<Rightarrow> real list \<Rightarrow> real list \<Rightarrow> error + real list" where
  "initial_state n vars fg =
     err_bind (vec_get Vars vars x_start) (\<lambda>x.
     err_bind (vec_set Fg fg (1 + x_start) x) (\<lambda>fg.
     err_bind (vec_get Vars vars (y_start n)) (\<lambda>y.
     err_bind (vec_set Fg fg (1 + y_start n) y) (\<lambda>fg.
     err_bind (vec_get Vars vars (psi_start n)) (\<lambda>psi.
     err_bind (vec_set Fg fg (1 + psi_start n) psi) (\<lambda>fg.
     err_bind (vec_get Vars vars (v_start n)) (\<lambda>v.
     err_bind (vec_set Fg fg (1 + v_start n) v) (\<lambda>fg.
     err_bind (vec_get Vars vars (cte_start n)) (\<lambda>cte.
     err_bind (vec_set Fg fg (1 + cte_start n) cte) (\<lambda>fg.
     err_bind (vec_get Vars vars (epsi_start n)) (\<lambda>epsi.
     vec_set Fg fg (1 + epsi_start n) epsi)))))))))))"

text \<open>Body of the prediction loop, lines 113 to 154.\<close>

definition predict :: "size_t \<Rightarrow> real list \<Rightarrow> real list \<Rightarrow> size_t \<Rightarrow> real list \<Rightarrow> error + real list" where
  "predict n cs vars i fg =
     err_bind (vec_get Vars vars (x_start + i + 1)) (\<lambda>x1.
     err_bind (vec_get Vars vars (y_start n + i + 1)) (\<lambda>y1.
     err_bind (vec_get Vars vars (psi_start n + i + 1)) (\<lambda>psi1.
     err_bind (vec_get Vars vars (v_start n + i + 1)) (\<lambda>v1.
     err_bind (vec_get Vars vars (cte_start n + i + 1)) (\<lambda>cte1.
     err_bind (vec_get Vars vars (epsi_start n + i + 1)) (\<lambda>epsi1.
     err_bind (vec_get Vars vars (x_start + i)) (\<lambda>x0.
     err_bind (vec_get Vars vars (y_start n + i)) (\<lambda>y0.
     err_bind (vec_get Vars vars (psi_start n + i)) (\<lambda>psi0.
     err_bind (vec_get Vars vars (v_start n + i)) (\<lambda>v0.
     err_bind (vec_get Vars vars (cte_start n + i)) (\<lambda>cte0.
     err_bind (vec_get Vars vars (epsi_start n + i)) (\<lambda>epsi0.
     err_bind (vec_get Vars vars (delta_start n + i)) (\<lambda>delta0.
     err_bind (vec_get Vars vars (a_start n + i)) (\<lambda>a0.
     err_bind (vec_get Coeffs cs 0) (\<lambda>c0.
     err_bind (vec_get Coeffs cs 1) (\<lambda>c1.
     err_bind (vec_get Coeffs cs 2) (\<lambda>c2.
     err_bind (vec_get Coeffs cs 3) (\<lambda>c3.
     let f0 = c0 + c1 * x0 + c2 * x0 ^ 2 + c3 * x0 ^ 3 in
     err_bind (vec_get Coeffs cs 1) (\<lambda>d1.
     err_bind (vec_get Coeffs cs 2) (\<lambda>d2.
     err_bind (vec_get Coeffs cs 3) (\<lambda>d3.
     let psides0 = arctan (d1 + (2 * d2 * x0) + (3 * d3 * x0 ^ 2)) in
     err_bind (vec_set Fg fg (2 + x_start + i) (x1 - (x0 + v0 * cos psi0 * dt))) (\<lambda>fg.
     err_bind (vec_set Fg fg (2 + y_start n + i) (y1 - (y0 + v0 * sin psi0 * dt))) (\<lambda>fg.
     err_bind (divide_checked (v0 * delta0) Lf) (\<lambda>q.
     err_bind (vec_set Fg fg (2 + psi_start n + i) (psi1 - (psi0 - q * dt))) (\<lambda>fg.
     err_bind (vec_set Fg fg (2 + v_start n + i) (v1 - (v0 + a0 * dt))) (\<lambda>fg.
     err_bind (vec_set Fg fg (2 + cte_start n + i) (cte1 - ((f0 - y0) + (v0 * sin epsi0 * dt)))) (\<lambda>fg.
     err_bind (divide_checked (v0 * delta0) Lf) (\<lambda>r.
     vec_set Fg fg (2 + epsi_start n + i) (epsi1 - ((psi0 - psides0) - r * dt))
     ))))))))))))))))))))))))))))"

text \<open>
  \<^verbatim>\<open>FG_eval::operator()(fg, vars)\<close>: \<open>fg\<close> is assigned in place, so the model
  returns the vector after the call. Entry 0 is the cost, entry \<open>1 + j\<close> the residual
  of constraint \<open>j\<close>.
\<close>

definition FG_eval_operator :: "size_t \<Rightarrow> FG_eval \<Rightarrow> real list \<Rightarrow> real list \<Rightarrow> error + real list" where
  "FG_eval_operator n this fg vars =
     err_bind (vec_set Fg fg 0 0) (\<lambda>fg.
     err_bind (for_loop 0 n (cost_reference n vars) fg) (\<lambda>fg.
     err_bind (for_loop 0 (n - 1) (cost_actuators n vars) fg) (\<lambda>fg.
     err_bind (for_loop 0 (n - 2) (cost_gap n vars) fg) (\<lambda>fg.
     err_bind (initial_state n vars fg) (\<lambda>fg.
     for_loop 0 (n - 1) (predict n (coeffs this) vars) fg)))))"

section \<open>The solve driver: \<^verbatim>\<open>MPC::Solve\<close>\<close>

text \<open>
  \<^verbatim>\<open>Dvector v(n)\<close> allocates a vector of \<open>n\<close> entries. The source assigns every
  entry before the vector is used and relies on no initial contents; \<open>u\<close> stands for
  whatever the fresh entries hold.
\<close>

definition Dvector :: "real \<Rightarrow> size_t \<Rightarrow> real list" where
  "Dvector u n = replicate (unat n) u"

text \<open>
  The external solver \<^verbatim>\<open>CppAD::ipopt::solve\<close> is not part of the repository. It
  receives the options, the start point, the four bound vectors and the evaluator,
  and fills in a \<^verbatim>\<open>solve_result\<close>. The model takes it as a parameter: any function
  from the problem to a result. Of the result the source reads \<^verbatim>\<open>status\<close>,
  \<^verbatim>\<open>obj_value\<close> and \<^verbatim>\<open>x\<close>; of the status values it names only \<^verbatim>\<open>success\<close>.
  (The fields carry the prefix \<open>sol_\<close>, since \<open>x\<close> is needed as a variable.)
\<close>

datatype status_type = success | not_success nat

record solve_result =
  sol_status :: status_type
  sol_x :: "real list"
  sol_obj_value :: real

record nlp =
  options :: string
  xi :: "real list"
  xl :: "real list"
  xu :: "real list"
  gl :: "real list"
  gu :: "real list"
  fg_eval :: FG_eval

text \<open>
  What a call of \<^verbatim>\<open>Solve\<close> leaves behind: the vector it returns and the cost it
  prints on \<^verbatim>\<open>std::cout\<close> after the word \<^verbatim>\<open>Cost\<close>.
\<close>

record Solve_effect =
  returned :: "real list"
  printed_cost :: real

text \<open>Bodies of the loops that fill the bound vectors, lines 207 to 233.\<close>

definition set_vars_bounds :: "real \<Rightarrow> real \<Rightarrow> size_t \<Rightarrow> real list \<times> real list \<Rightarrow> error + real list \<times> real list" where
  "set_vars_bounds hi lo i = (\<lambda>(vars_upperbound, vars_lowerbound).
     err_bind (vec_set VarsUpper vars_upperbound i hi) (\<lambda>vars_upperbound.
     err_bind (vec_set VarsLower vars_lowerbound i lo) (\<lambda>vars_lowerbound.
     Inr (vars_upperbound, vars_lowerbound))))"

definition set_constraints_bounds :: "size_t \<Rightarrow> real list \<times> real list \<Rightarrow> error + real list \<times> real list" where
  "set_constraints_bounds i = (\<lambda>(constraints_lowerbound, constraints_upperbound).
     err_bind (vec_set ConstraintsLower constraints_lowerbound i 0) (\<lambda>constraints_lowerbound.
     err_bind (vec_set ConstraintsUpper constraints_upperbound i 0) (\<lambda>constraints_upperbound.
     Inr (constraints_lowerbound, constraints_upperbound))))"

text \<open>The six assignments of the initial state to one vector, as in lines 197 to 202.\<close>

definition set_init_state :: "vec \<Rightarrow> size_t \<Rightarrow> real list \<Rightarrow> real \<Rightarrow> real \<Rightarrow> real \<Rightarrow> real \<Rightarrow> real \<Rightarrow> real \<Rightarrow> error + real list" where
  "set_init_state nm n v x y psi v0 cte epsi =
     err_bind (vec_set nm v x_start x) (\<lambda>v.
     err_bind (vec_set nm v (y_start n) y) (\<lambda>v.
     err_bind (vec_set nm v (psi_start n) psi) (\<lambda>v.
     err_bind (vec_set nm v (v_start n) v0) (\<lambda>v.
     err_bind (vec_set nm v (cte_start n) cte) (\<lambda>v.
     vec_set nm v (epsi_start n) epsi)))))"

definition solver_options :: string where
  "solver_options =
     ''Integer print_level  0'' @ [CHR 0x0A] @
     ''Sparse  true        forward'' @ [CHR 0x0A] @
     ''Sparse  true        reverse'' @ [CHR 0x0A] @
     ''Numeric max_cpu_time          0.5'' @ [CHR 0x0A]"

text \<open>
  \<^verbatim>\<open>Solve\<close> up to the call of the solver (lines 177 to 268): the problem handed to
  \<^verbatim>\<open>CppAD::ipopt::solve\<close>. The literal \<^verbatim>\<open>1.0e19\<close> is written \<open>10 ^ 19\<close>.
\<close>

definition Solve_problem :: "size_t \<Rightarrow> real \<Rightarrow> real list \<Rightarrow> real list \<Rightarrow> error + nlp" where
  "Solve_problem n u state cs =
     err_bind (for_loop 0 (n_vars n) (\<lambda>i vars. vec_set Vars vars i 0) (Dvector u (n_vars n))) (\<lambda>vars.
     err_bind (vec_get State state 0) (\<lambda>x.
     err_bind (vec_get State state 1) (\<lambda>y.
     err_bind (vec_get State state 2) (\<lambda>psi.
     err_bind (vec_get State state 3) (\<lambda>v.
     err_bind (vec_get State state 4) (\<lambda>cte.
     err_bind (vec_get State state 5) (\<lambda>epsi.
     err_bind (set_init_state Vars n vars x y psi v cte epsi) (\<lambda>vars.
     err_bind (for_loop 0 (delta_start n) (set_vars_bounds (10 ^ 19) (- (10 ^ 19)))
                 (Dvector u (n_vars n), Dvector u (n_vars n))) (\<lambda>bounds.
     err_bind (for_loop (delta_start n) (a_start n) (set_vars_bounds (M_PI / 8) (- M_PI / 8)) bounds) (\<lambda>bounds.
     err_bind (for_loop (a_start n) (n_vars n) (set_vars_bounds 1 (- 1)) bounds) (\<lambda>(vars_upperbound, vars_lowerbound).
     err_bind (for_loop 0 (n_constraints n) set_constraints_bounds
                 (Dvector u (n_constraints n), Dvector u (n_constraints n))) (\<lambda>(constraints_lowerbound, constraints_upperbound).
     err_bind (set_init_state ConstraintsLower n constraints_lowerbound x y psi v cte epsi) (\<lambda>constraints_lowerbound.
     err_bind (set_init_state ConstraintsUpper n constraints_upperbound x y psi v cte epsi) (\<lambda>constraints_upperbound.
     Inr \<lparr>options = solver_options, xi = vars, xl = vars_lowerbound, xu = vars_upperbound,
          gl = constraints_lowerbound, gu = constraints_upperbound,
          fg_eval = \<lparr>coeffs = cs\<rparr>\<rparr>))))))))))))))"

text \<open>Body of the loop that appends the predicted points, lines 299 to 303.\<close>

definition push_point :: "size_t \<Rightarrow> real list \<Rightarrow> size_t \<Rightarrow> real list \<Rightarrow> error + real list" where
  "push_point n solution_x i result =
     err_bind (vec_get SolutionX solution_x (x_start + i + 1)) (\<lambda>px.
     let result = result @ [px] in
     err_bind (vec_get SolutionX solution_x (y_start n + i + 1)) (\<lambda>py.
     Inr (result @ [py])))"

text \<open>
  \<^verbatim>\<open>Solve\<close> after the call of the solver (lines 279 to 304), on the result
  \<open>solution\<close> the solver has filled in. The flag \<^verbatim>\<open>ok\<close> is computed and not used,
  as in the source.
\<close>

definition Solve_result :: "size_t \<Rightarrow> solve_result \<Rightarrow> error + Solve_effect" where
  "Solve_result n solution =
     (let ok = True;
          ok = (ok \<and> sol_status solution = success);
          cost = sol_obj_value solution;
          result = [] in
      err_bind (vec_get SolutionX (sol_x solution) (delta_start n)) (\<lambda>steer.
      let result = result @ [steer] in
      err_bind (vec_get SolutionX (sol_x solution) (a_start n)) (\<lambda>throttle.
      let result = result @ [throttle] in
      err_bind (for_loop 0 (n - 1) (push_point n (sol_x solution)) result) (\<lambda>result.
      Inr \<lparr>returned = result, printed_cost = cost\<rparr>))))"

text \<open>\<^verbatim>\<open>MPC::Solve(state, coeffs)\<close> with the solver \<open>ipopt_solve\<close>.\<close>

definition Solve :: "size_t \<Rightarrow> real \<Rightarrow> (nlp \<Rightarrow> solve_result) \<Rightarrow> real list \<Rightarrow> real list \<Rightarrow> error + Solve_effect" where
  "Solve n u ipopt_solve state cs =
     err_bind (Solve_problem n u state cs) (\<lambda>problem.
     Solve_result n (ipopt_solve problem))"

section \<open>Notions of the specification and of the proofs\<close>

text \<open>
  The horizons at which none of the \<^verbatim>\<open>size_t\<close> expressions of the source wraps
  around: at least two steps, and \<open>8 * n\<close> below \<open>2 ^ 64\<close>. The source's
  \<open>N = 15\<close> is one of them, and so is the degenerate horizon 2.
\<close>

definition horizon_ok :: "size_t \<Rightarrow> bool" where
  "horizon_ok n \<longleftrightarrow> 2 \<le> n \<and> n < 2 ^ 61"

text \<open>The value of timestep \<open>t\<close> in the block of a flat vector that starts at \<open>start\<close>.\<close>

definition entry :: "real list \<Rightarrow> size_t \<Rightarrow> nat \<Rightarrow> real" where
  "entry v start t = v ! (unat start + t)"

text \<open>The three kinds of cost terms, with the weights and targets the specification lists.\<close>

definition tracking_term :: "size_t \<Rightarrow> real list \<Rightarrow> nat \<Rightarrow> real" where
  "tracking_term n vars t =
     3000 * (entry vars (cte_start n) t - 0) ^ 2 +
     500 * (entry vars (epsi_start n) t - 0) ^ 2 +
     1 * (entry vars (v_start n) t - 40) ^ 2"

definition effort_term :: "size_t \<Rightarrow> real list \<Rightarrow> nat \<Rightarrow> real" where
  "effort_term n vars t =
     1 * (entry vars (delta_start n) t) ^ 2 + 1 * (entry vars (a_start n) t) ^ 2"

definition smoothness_term :: "size_t \<Rightarrow> real list \<Rightarrow> nat \<Rightarrow> real" where
  "smoothness_term n vars t =
     200 * (entry vars (delta_start n) (t + 1) - entry vars (delta_start n) t) ^ 2 +
     1 * (entry vars (a_start n) (t + 1) - entry vars (a_start n) t) ^ 2"

text \<open>
  The fitted path \<open>f\<close> and its heading \<open>psi_des\<close>, and the residuals of the kinematic
  bicycle model as the specification writes them: the variable of timestep \<open>t + 1\<close>
  minus the model's prediction from timestep \<open>t\<close>, with \<open>Lf = 2.67\<close>.
\<close>

definition path_f :: "real list \<Rightarrow> real \<Rightarrow> real" where
  "path_f c x = c ! 0 + c ! 1 * x + c ! 2 * x ^ 2 + c ! 3 * x ^ 3"

definition path_psides :: "real list \<Rightarrow> real \<Rightarrow> real" where
  "path_psides c x = arctan (c ! 1 + 2 * c ! 2 * x + 3 * c ! 3 * x ^ 2)"

definition residual_x :: "size_t \<Rightarrow> real list \<Rightarrow> nat \<Rightarrow> real" where
  "residual_x n vars t = entry vars x_start (t + 1) -
     (entry vars x_start t + entry vars (v_start n) t * cos (entry vars (psi_start n) t) * dt)"

definition residual_y :: "size_t \<Rightarrow> real list \<Rightarrow> nat \<Rightarrow> real" where
  "residual_y n vars t = entry vars (y_start n) (t + 1) -
     (entry vars (y_start n) t + entry vars (v_start n) t * sin (entry vars (psi_start n) t) * dt)"

definition residual_psi :: "size_t \<Rightarrow> real list \<Rightarrow> nat \<Rightarrow> real" where
  "residual_psi n vars t = entry vars (psi_start n) (t + 1) -
     (entry vars (psi_start n) t - (entry vars (v_start n) t / 2.67) * entry vars (delta_start n) t * dt)"

definition residual_v :: "size_t \<Rightarrow> real list \<Rightarrow> nat \<Rightarrow> real" where
  "residual_v n vars t = entry vars (v_start n) (t + 1) -
     (entry vars (v_start n) t + entry vars (a_start n) t * dt)"

definition residual_cte :: "size_t \<Rightarrow> real list \<Rightarrow> real list \<Rightarrow> nat \<Rightarrow> real" where
  "residual_cte n c vars t = entry vars (cte_start n) (t + 1) -
     ((path_f c (entry vars x_start t) - entry vars (y_start n) t) +
      entry vars (v_start n) t * sin (entry vars (epsi_start n) t) * dt)"

definition residual_epsi :: "size_t \<Rightarrow> real list \<Rightarrow> real list \<Rightarrow> nat \<Rightarrow> real" where
  "residual_epsi n c vars t = entry vars (epsi_start n) (t + 1) -
     ((entry vars (psi_start n) t - path_psides c (entry vars x_start t)) -
      (entry vars (v_start n) t / 2.67) * entry vars (delta_start n) t * dt)"

text \<open>The cost as the specification writes it: the sum of the three groups of terms.\<close>

definition total_cost :: "size_t \<Rightarrow> real list \<Rightarrow> real" where
  "total_cost n vars =
     (\<Sum>t<unat n. tracking_term n vars t) +
     (\<Sum>t<unat n - 1. effort_term n vars t) +
     (\<Sum>t<unat n - 2. smoothness_term n vars t)"

text \<open>
  The vector \<open>fg\<close> when the prediction loop starts: the cost in entry 0 and the
  variables of timestep 0 in the six entries of the initial state.
\<close>

definition before_prediction :: "size_t \<Rightarrow> real list \<Rightarrow> real list \<Rightarrow> real list" where
  "before_prediction n vars fg = (fg[0 := total_cost n vars])
     [1 + unat x_start := entry vars x_start 0,
      1 + unat (y_start n) := entry vars (y_start n) 0,
      1 + unat (psi_start n) := entry vars (psi_start n) 0,
      1 + unat (v_start n) := entry vars (v_start n) 0,
      1 + unat (cte_start n) := entry vars (cte_start n) 0,
      1 + unat (epsi_start n) := entry vars (epsi_start n) 0]"

text \<open>
  Invariant of the prediction loop: after \<open>k\<close> rounds on the vector \<open>fg\<close>, the cost entry
  and the six initial-state entries are as in \<open>fg\<close> and the residuals of the first
  \<open>k\<close> transitions are in place.
\<close>

definition predicted_upto :: "size_t \<Rightarrow> real list \<Rightarrow> real list \<Rightarrow> real list \<Rightarrow> nat \<Rightarrow> real list \<Rightarrow> bool" where
  "predicted_upto n cs vars fg k g \<longleftrightarrow>
     length g = length fg \<and> g ! 0 = fg ! 0 \<and>
     g ! (1 + unat x_start) = fg ! (1 + unat x_start) \<and>
     g ! (1 + unat (y_start n)) = fg ! (1 + unat (y_start n)) \<and>
     g ! (1 + unat (psi_start n)) = fg ! (1 + unat (psi_start n)) \<and>
     g ! (1 + unat (v_start n)) = fg ! (1 + unat (v_start n)) \<and>
     g ! (1 + unat (cte_start n)) = fg ! (1 + unat (cte_start n)) \<and>
     g ! (1 + unat (epsi_start n)) = fg ! (1 + unat (epsi_start n)) \<and>
     (\<forall>t<k. g ! (2 + unat x_start + t) = residual_x n vars t \<and>
            g ! (2 + unat (y_start n) + t) = residual_y n vars t \<and>
            g ! (2 + unat (psi_start n) + t) = residual_psi n vars t \<and>
            g ! (2 + unat (v_start n) + t) = residual_v n vars t \<and>
            g ! (2 + unat (cte_start n) + t) = residual_cte n cs vars t \<and>
            g ! (2 + unat (epsi_start n) + t) = residual_epsi n cs vars t)"

text \<open>
  What the driver's loops are expected to build: \<open>filled a b c v\<close> is \<open>v\<close> with the
  entries \<open>a\<close> to \<open>b - 1\<close> set to \<open>c\<close>, and \<open>pinned n state v\<close> is \<open>v\<close> with the six
  entries at the starts of the state blocks set to the current state.
\<close>

definition filled :: "nat \<Rightarrow> nat \<Rightarrow> real \<Rightarrow> real list \<Rightarrow> real list" where
  "filled a b c v = map (\<lambda>k. if a \<le> k \<and> k < b then c else v ! k) [0..<length v]"

definition pinned :: "size_t \<Rightarrow> real list \<Rightarrow> real list \<Rightarrow> real list" where
  "pinned n state v = v
     [unat x_start := state ! 0, unat (y_start n) := state ! 1, unat (psi_start n) := state ! 2,
      unat (v_start n) := state ! 3, unat (cte_start n) := state ! 4, unat (epsi_start n) := state ! 5]"

text \<open>
  The pair of bounds that \<^verbatim>\<open>Solve\<close> hands to the solver for constraint \<open>j\<close>, if it
  gets as far as the call.
\<close>

definition constraint_bounds :: "size_t \<Rightarrow> real \<Rightarrow> real list \<Rightarrow> real list \<Rightarrow> nat \<Rightarrow> (real \<times> real) option" where
  "constraint_bounds n u state cs j =
     (case Solve_problem n u state cs of Inl e \<Rightarrow> None | Inr p \<Rightarrow> Some (gl p ! j, gu p ! j))"

text \<open>
  The predicted points that \<^verbatim>\<open>Solve\<close> appends in \<open>k\<close> rounds, read from the solution
  vector \<open>sx\<close>; and a solver that answers every problem with the same result, as a
  test double would.
\<close>

definition predicted_points :: "size_t \<Rightarrow> real list \<Rightarrow> nat \<Rightarrow> real list" where
  "predicted_points n sx k =
     concat (map (\<lambda>i. [entry sx x_start (i + 1), entry sx (y_start n) (i + 1)]) [0..<k])"

definition stub_solver :: "solve_result \<Rightarrow> nlp \<Rightarrow> solve_result" where
  "stub_solver r problem = r"

text \<open>
  The number of variables and of constraints of the problem that \<^verbatim>\<open>Solve\<close> hands to
  the solver, if it gets as far as the call.
\<close>

definition problem_size :: "size_t \<Rightarrow> real \<Rightarrow> real list \<Rightarrow> real list \<Rightarrow> (nat \<times> nat) option" where
  "problem_size n u state cs =
     (case Solve_problem n u state cs of Inl e \<Rightarrow> None | Inr p \<Rightarrow> Some (length (xi p), length (gl p)))"

section \<open>Auxiliary facts\<close>

lemma horizon_unat: "horizon_ok n \<Longrightarrow> 2 \<le> unat n \<and> unat n < 2 ^ 61"
  by (simp add: horizon_ok_def word_le_nat_alt word_less_nat_alt)

lemmas start_defs = x_start_def y_start_def psi_start_def v_start_def cte_start_def
  epsi_start_def delta_start_def a_start_def n_vars_def n_constraints_def

lemma unat_starts:
  assumes "horizon_ok n"
  shows "unat x_start = 0" "unat (y_start n) = unat n" "unat (psi_start n) = 2 * unat n"
    "unat (v_start n) = 3 * unat n" "unat (cte_start n) = 4 * unat n"
    "unat (epsi_start n) = 5 * unat n" "unat (delta_start n) = 6 * unat n"
    "unat (a_start n) = 7 * unat n - 1" "unat (n_vars n) = 8 * unat n - 2"
    "unat (n_constraints n) = 6 * unat n" "unat (n - 1) = unat n - 1" "unat (n - 2) = unat n - 2"
  using horizon_unat [OF assms]
  by (simp_all add: start_defs unat_word_ariths unat_sub word_le_nat_alt)

lemma unat_plus: "unat a + unat b < 2 ^ 64 \<Longrightarrow> unat (a + b) = unat a + unat (b :: size_t)"
  by (simp add: unat_word_ariths)

lemma unat_index:
  assumes "horizon_ok n" and "unat i < unat n"
  shows "unat (x_start + i) = unat x_start + unat i"
    "unat (y_start n + i) = unat (y_start n) + unat i"
    "unat (psi_start n + i) = unat (psi_start n) + unat i"
    "unat (v_start n + i) = unat (v_start n) + unat i"
    "unat (cte_start n + i) = unat (cte_start n) + unat i"
    "unat (epsi_start n + i) = unat (epsi_start n) + unat i"
    "unat (delta_start n + i) = unat (delta_start n) + unat i"
    "unat (a_start n + i) = unat (a_start n) + unat i"
proof -
  note h = horizon_unat [OF assms(1)] and u = unat_starts [OF assms(1)]
  have b: "8 * unat n < 2 ^ 64" using h by simp
  show "unat (x_start + i) = unat x_start + unat i"
    using b assms(2) by (intro unat_plus) (simp add: u)
  show "unat (y_start n + i) = unat (y_start n) + unat i"
    using b assms(2) by (intro unat_plus) (simp add: u)
  show "unat (psi_start n + i) = unat (psi_start n) + unat i"
    using b assms(2) by (intro unat_plus) (simp add: u)
  show "unat (v_start n + i) = unat (v_start n) + unat i"
    using b assms(2) by (intro unat_plus) (simp add: u)
  show "unat (cte_start n + i) = unat (cte_start n) + unat i"
    using b assms(2) by (intro unat_plus) (simp add: u)
  show "unat (epsi_start n + i) = unat (epsi_start n) + unat i"
    using b assms(2) by (intro unat_plus) (simp add: u)
  show "unat (delta_start n + i) = unat (delta_start n) + unat i"
    using b assms(2) by (intro unat_plus) (simp add: u)
  show "unat (a_start n + i) = unat (a_start n) + unat i"
    using b assms(2) by (intro unat_plus) (simp add: u)
qed

lemma unat_index_Suc:
  assumes "horizon_ok n" and "unat i < unat n - 1"
  shows "unat (x_start + i + 1) = unat x_start + Suc (unat i)"
    "unat (y_start n + i + 1) = unat (y_start n) + Suc (unat i)"
    "unat (psi_start n + i + 1) = unat (psi_start n) + Suc (unat i)"
    "unat (v_start n + i + 1) = unat (v_start n) + Suc (unat i)"
    "unat (cte_start n + i + 1) = unat (cte_start n) + Suc (unat i)"
    "unat (epsi_start n + i + 1) = unat (epsi_start n) + Suc (unat i)"
    "unat (delta_start n + i + 1) = unat (delta_start n) + Suc (unat i)"
    "unat (a_start n + i + 1) = unat (a_start n) + Suc (unat i)"
proof -
  note h = horizon_unat [OF assms(1)] and u = unat_starts [OF assms(1)]
  have b: "8 * unat n < 2 ^ 64" using h by simp
  from assms(2) have i: "unat i < unat n" by simp
  note idx = unat_index [OF assms(1) i]
  have one: "\<And>a :: size_t. unat a + 1 < 2 ^ 64 \<Longrightarrow> unat (a + 1) = unat a + 1"
    using unat_plus [of _ 1] by simp
  show "unat (x_start + i + 1) = unat x_start + Suc (unat i)"
    using b i by (subst one) (simp_all add: idx u)
  show "unat (y_start n + i + 1) = unat (y_start n) + Suc (unat i)"
    using b i by (subst one) (simp_all add: idx u)
  show "unat (psi_start n + i + 1) = unat (psi_start n) + Suc (unat i)"
    using b i by (subst one) (simp_all add: idx u)
  show "unat (v_start n + i + 1) = unat (v_start n) + Suc (unat i)"
    using b i by (subst one) (simp_all add: idx u)
  show "unat (cte_start n + i + 1) = unat (cte_start n) + Suc (unat i)"
    using b i by (subst one) (simp_all add: idx u)
  show "unat (epsi_start n + i + 1) = unat (epsi_start n) + Suc (unat i)"
    using b i by (subst one) (simp_all add: idx u)
  show "unat (delta_start n + i + 1) = unat (delta_start n) + Suc (unat i)"
    using b i by (subst one) (simp_all add: idx u)
  show "unat (a_start n + i + 1) = unat (a_start n) + Suc (unat i)"
    using b i by (subst one) (simp_all add: idx u)
qed

lemma unat_fg_index:
  assumes "horizon_ok n" and "unat i < unat n"
  shows "unat (2 + x_start + i) = 2 + unat x_start + unat i"
    "unat (2 + y_start n + i) = 2 + unat (y_start n) + unat i"
    "unat (2 + psi_start n + i) = 2 + unat (psi_start n) + unat i"
    "unat (2 + v_start n + i) = 2 + unat (v_start n) + unat i"
    "unat (2 + cte_start n + i) = 2 + unat (cte_start n) + unat i"
    "unat (2 + epsi_start n + i) = 2 + unat (epsi_start n) + unat i"
    "unat (1 + x_start) = 1 + unat x_start"
    "unat (1 + y_start n) = 1 + unat (y_start n)"
    "unat (1 + psi_start n) = 1 + unat (psi_start n)"
    "unat (1 + v_start n) = 1 + unat (v_start n)"
    "unat (1 + cte_start n) = 1 + unat (cte_start n)"
    "unat (1 + epsi_start n) = 1 + unat (epsi_start n)"
proof -
  note h = horizon_unat [OF assms(1)] and u = unat_starts [OF assms(1)]
  have b: "8 * unat n < 2 ^ 64" using h by simp
  have two: "\<And>a :: size_t. 2 + unat a < 2 ^ 64 \<Longrightarrow> unat (2 + a) = 2 + unat a"
    using unat_plus [of 2] by simp
  have one: "\<And>a :: size_t. 1 + unat a < 2 ^ 64 \<Longrightarrow> unat (1 + a) = 1 + unat a"
    using unat_plus [of 1] by simp
  have t: "\<And>a. unat a \<le> 5 * unat n \<Longrightarrow> unat (2 + a + i) = 2 + unat a + unat i"
  proof -
    fix a :: size_t
    assume a: "unat a \<le> 5 * unat n"
    then have "unat (2 + a) = 2 + unat a" using b by (intro two) simp
    moreover from this have "unat (2 + a + i) = unat (2 + a) + unat i"
      using a b assms(2) by (intro unat_plus) simp
    ultimately show "unat (2 + a + i) = 2 + unat a + unat i" by simp
  qed
  show "unat (2 + x_start + i) = 2 + unat x_start + unat i" by (rule t) (simp add: u)
  show "unat (2 + y_start n + i) = 2 + unat (y_start n) + unat i" by (rule t) (simp add: u)
  show "unat (2 + psi_start n + i) = 2 + unat (psi_start n) + unat i" by (rule t) (simp add: u)
  show "unat (2 + v_start n + i) = 2 + unat (v_start n) + unat i" by (rule t) (simp add: u)
  show "unat (2 + cte_start n + i) = 2 + unat (cte_start n) + unat i" by (rule t) (simp add: u)
  show "unat (2 + epsi_start n + i) = 2 + unat (epsi_start n) + unat i" by (rule t) (simp add: u)
  show "unat (1 + x_start) = 1 + unat x_start" using b by (intro one) (simp add: u)
  show "unat (1 + y_start n) = 1 + unat (y_start n)" using b by (intro one) (simp add: u)
  show "unat (1 + psi_start n) = 1 + unat (psi_start n)" using b by (intro one) (simp add: u)
  show "unat (1 + v_start n) = 1 + unat (v_start n)" using b by (intro one) (simp add: u)
  show "unat (1 + cte_start n) = 1 + unat (cte_start n)" using b by (intro one) (simp add: u)
  show "unat (1 + epsi_start n) = 1 + unat (epsi_start n)" using b by (intro one) (simp add: u)
qed


lemmas residual_defs = residual_x_def residual_y_def residual_psi_def residual_v_def
  residual_cte_def residual_epsi_def

lemma err_bind_simps [simp]: "err_bind (Inr a) f = f a" "err_bind (Inl e) f = Inl e"
  by (simp_all add: err_bind_def)

lemmas factor_defs = cost_cte_factor_def cost_epsi_factor_def cost_v_factor_def
  cost_current_delta_factor_def cost_diff_delta_factor_def cost_current_a_factor_def
  cost_diff_a_factor_def ref_cte_def ref_epsi_def ref_v_def

lemma vec_get_ok: "unat i < length v \<Longrightarrow> vec_get nm v i = Inr (v ! unat i)"
  by (simp add: vec_get_def)

lemma vec_set_ok: "unat i < length v \<Longrightarrow> vec_set nm v i a = Inr (v[unat i := a])"
  by (simp add: vec_set_def)

lemma divide_by_Lf: "divide_checked a Lf = Inr (a / 2.67)"
  by (simp add: divide_checked_def Lf_def)

lemma vars_get:
  assumes "horizon_ok n" "length vars = unat (n_vars n)" "unat i < unat n - 1"
  shows "vec_get Vars vars (x_start + i) = Inr (entry vars x_start (unat i))"
    "vec_get Vars vars (y_start n + i) = Inr (entry vars (y_start n) (unat i))"
    "vec_get Vars vars (psi_start n + i) = Inr (entry vars (psi_start n) (unat i))"
    "vec_get Vars vars (v_start n + i) = Inr (entry vars (v_start n) (unat i))"
    "vec_get Vars vars (cte_start n + i) = Inr (entry vars (cte_start n) (unat i))"
    "vec_get Vars vars (epsi_start n + i) = Inr (entry vars (epsi_start n) (unat i))"
    "vec_get Vars vars (delta_start n + i) = Inr (entry vars (delta_start n) (unat i))"
    "vec_get Vars vars (a_start n + i) = Inr (entry vars (a_start n) (unat i))"
    "vec_get Vars vars (x_start + i + 1) = Inr (entry vars x_start (Suc (unat i)))"
    "vec_get Vars vars (y_start n + i + 1) = Inr (entry vars (y_start n) (Suc (unat i)))"
    "vec_get Vars vars (psi_start n + i + 1) = Inr (entry vars (psi_start n) (Suc (unat i)))"
    "vec_get Vars vars (v_start n + i + 1) = Inr (entry vars (v_start n) (Suc (unat i)))"
    "vec_get Vars vars (cte_start n + i + 1) = Inr (entry vars (cte_start n) (Suc (unat i)))"
    "vec_get Vars vars (epsi_start n + i + 1) = Inr (entry vars (epsi_start n) (Suc (unat i)))"
proof -
  note h = horizon_unat [OF assms(1)] and u = unat_starts [OF assms(1)]
  from assms(3) have i: "unat i < unat n" by simp
  note idx = unat_index [OF assms(1) i] unat_index_Suc [OF assms(1) assms(3)]
  have len: "length vars = 8 * unat n - 2"
    using assms(2) by (simp add: u)
  show "vec_get Vars vars (x_start + i) = Inr (entry vars x_start (unat i))"
    using h i len by (simp add: vec_get_def entry_def idx(1) u)
  show "vec_get Vars vars (y_start n + i) = Inr (entry vars (y_start n) (unat i))"
    using h i len by (simp add: vec_get_def entry_def idx(2) u)
  show "vec_get Vars vars (psi_start n + i) = Inr (entry vars (psi_start n) (unat i))"
    using h i len by (simp add: vec_get_def entry_def idx(3) u)
  show "vec_get Vars vars (v_start n + i) = Inr (entry vars (v_start n) (unat i))"
    using h i len by (simp add: vec_get_def entry_def idx(4) u)
  show "vec_get Vars vars (cte_start n + i) = Inr (entry vars (cte_start n) (unat i))"
    using h i len by (simp add: vec_get_def entry_def idx(5) u)
  show "vec_get Vars vars (epsi_start n + i) = Inr (entry vars (epsi_start n) (unat i))"
    using h i len by (simp add: vec_get_def entry_def idx(6) u)
  show "vec_get Vars vars (delta_start n + i) = Inr (entry vars (delta_start n) (unat i))"
    using h assms(3) len by (simp add: vec_get_def entry_def idx(7) u)
  show "vec_get Vars vars (a_start n + i) = Inr (entry vars (a_start n) (unat i))"
    using h assms(3) len by (simp add: vec_get_def entry_def idx(8) u)
  show "vec_get Vars vars (x_start + i + 1) = Inr (entry vars x_start (Suc (unat i)))"
    using h assms(3) len by (simp add: vec_get_def entry_def idx(9) u)
  show "vec_get Vars vars (y_start n + i + 1) = Inr (entry vars (y_start n) (Suc (unat i)))"
    using h assms(3) len by (simp add: vec_get_def entry_def idx(10) u)
  show "vec_get Vars vars (psi_start n + i + 1) = Inr (entry vars (psi_start n) (Suc (unat i)))"
    using h assms(3) len by (simp add: vec_get_def entry_def idx(11) u)
  show "vec_get Vars vars (v_start n + i + 1) = Inr (entry vars (v_start n) (Suc (unat i)))"
    using h assms(3) len by (simp add: vec_get_def entry_def idx(12) u)
  show "vec_get Vars vars (cte_start n + i + 1) = Inr (entry vars (cte_start n) (Suc (unat i)))"
    using h assms(3) len by (simp add: vec_get_def entry_def idx(13) u)
  show "vec_get Vars vars (epsi_start n + i + 1) = Inr (entry vars (epsi_start n) (Suc (unat i)))"
    using h assms(3) len by (simp add: vec_get_def entry_def idx(14) u)
qed

lemma fg_set:
  assumes "horizon_ok n" "length g = Suc (unat (n_constraints n))" "unat i < unat n - 1"
  shows "vec_set Fg g (2 + x_start + i) a = Inr (g[2 + unat x_start + unat i := a])"
    "vec_set Fg g (2 + y_start n + i) a = Inr (g[2 + unat (y_start n) + unat i := a])"
    "vec_set Fg g (2 + psi_start n + i) a = Inr (g[2 + unat (psi_start n) + unat i := a])"
    "vec_set Fg g (2 + v_start n + i) a = Inr (g[2 + unat (v_start n) + unat i := a])"
    "vec_set Fg g (2 + cte_start n + i) a = Inr (g[2 + unat (cte_start n) + unat i := a])"
    "vec_set Fg g (2 + epsi_start n + i) a = Inr (g[2 + unat (epsi_start n) + unat i := a])"
proof -
  note h = horizon_unat [OF assms(1)] and u = unat_starts [OF assms(1)]
  from assms(3) have i: "unat i < unat n" by simp
  note idx = unat_fg_index [OF assms(1) i]
  have len: "length g = Suc (6 * unat n)"
    using assms(2) by (simp add: u)
  show "vec_set Fg g (2 + x_start + i) a = Inr (g[2 + unat x_start + unat i := a])"
    using h assms(3) len by (simp add: vec_set_def idx(1) u)
  show "vec_set Fg g (2 + y_start n + i) a = Inr (g[2 + unat (y_start n) + unat i := a])"
    using h assms(3) len by (simp add: vec_set_def idx(2) u)
  show "vec_set Fg g (2 + psi_start n + i) a = Inr (g[2 + unat (psi_start n) + unat i := a])"
    using h assms(3) len by (simp add: vec_set_def idx(3) u)
  show "vec_set Fg g (2 + v_start n + i) a = Inr (g[2 + unat (v_start n) + unat i := a])"
    using h assms(3) len by (simp add: vec_set_def idx(4) u)
  show "vec_set Fg g (2 + cte_start n + i) a = Inr (g[2 + unat (cte_start n) + unat i := a])"
    using h assms(3) len by (simp add: vec_set_def idx(5) u)
  show "vec_set Fg g (2 + epsi_start n + i) a = Inr (g[2 + unat (epsi_start n) + unat i := a])"
    using h assms(3) len by (simp add: vec_set_def idx(6) u)
qed

lemma predict_ok:
  assumes "horizon_ok n" "length vars = unat (n_vars n)" "i < n - 1"
    "length fg = Suc (unat (n_constraints n))" "4 \<le> length cs"
  shows "predict n cs vars i fg = Inr (fg
     [2 + unat x_start + unat i := residual_x n vars (unat i),
      2 + unat (y_start n) + unat i := residual_y n vars (unat i),
      2 + unat (psi_start n) + unat i := residual_psi n vars (unat i),
      2 + unat (v_start n) + unat i := residual_v n vars (unat i),
      2 + unat (cte_start n) + unat i := residual_cte n cs vars (unat i),
      2 + unat (epsi_start n) + unat i := residual_epsi n cs vars (unat i)])"
proof -
  note u = unat_starts [OF assms(1)]
  from assms(3) have i1: "unat i < unat n - 1" by (simp add: word_less_nat_alt u)
  have c: "vec_get Coeffs cs 0 = Inr (cs ! 0)" "vec_get Coeffs cs 1 = Inr (cs ! 1)"
    "vec_get Coeffs cs 2 = Inr (cs ! 2)" "vec_get Coeffs cs 3 = Inr (cs ! 3)"
    using assms(5) by (auto simp: vec_get_def)
  note g = vars_get [OF assms(1,2) i1]
  have s: "\<And>g. length g = length fg \<Longrightarrow> length g = Suc (unat (n_constraints n))"
    using assms(4) by simp
  note st = fg_set [OF assms(1) s i1]
  show ?thesis
    unfolding predict_def
    by (simp add: g c st divide_by_Lf Let_def residual_defs path_f_def path_psides_def mult_ac)
qed

lemma vec_add_to_ok: "unat i < length v \<Longrightarrow> vec_add_to nm v i a = Inr (v[unat i := v ! unat i + a])"
  by (simp add: vec_add_to_def vec_get_ok vec_set_ok)

lemma unat_succ: "(i::size_t) < n \<Longrightarrow> unat (i + 1) = Suc (unat i)"
proof -
  assume "i < n"
  then have "unat i < unat n" by (simp add: word_less_nat_alt)
  moreover have "unat n < 2 ^ 64" using unsigned_less [of n] by simp
  ultimately have "Suc (unat i) < 2 ^ 64" by linarith
  then show ?thesis by (simp add: unat_word_ariths)
qed

lemma for_loop_inv:
  assumes "I (unat i) s" and "i \<le> n"
    and "\<And>j t. i \<le> j \<Longrightarrow> j < n \<Longrightarrow> I (unat j) t \<Longrightarrow> \<exists>t'. body j t = Inr t' \<and> I (Suc (unat j)) t'"
  shows "\<exists>t'. for_loop i n body s = Inr t' \<and> I (unat n) t'"
  using assms
proof (induction i n body s rule: for_loop.induct)
  case (1 i n body s)
  show ?case
  proof (cases "i < n")
    case True
    from "1.prems"(3) [OF order_refl True "1.prems"(1)]
    obtain s' where b: "body i s = Inr s'" and inv: "I (Suc (unat i)) s'"
      by blast
    have su: "unat (i + 1) = Suc (unat i)"
      using True by (rule unat_succ)
    have le: "i + 1 \<le> n"
      using True su by (simp add: word_le_nat_alt word_less_nat_alt)
    have ii: "i \<le> i + 1"
      using su by (simp add: word_le_nat_alt)
    have "\<exists>t'. for_loop (i + 1) n body s' = Inr t' \<and> I (unat n) t'"
    proof (rule "1.IH" [OF True b])
      show "I (unat (i + 1)) s'" using inv su by simp
      show "i + 1 \<le> n" by (rule le)
      fix j t
      assume "i + 1 \<le> j" "j < n" "I (unat j) t"
      with ii show "\<exists>t'. body j t = Inr t' \<and> I (Suc (unat j)) t'"
        using "1.prems"(3) [of j t] by simp
    qed
    then show ?thesis
      using True b by (subst for_loop.simps) simp
  next
    case False
    with "1.prems"(2) have "i = n" by simp
    with "1.prems"(1) show ?thesis
      by (subst for_loop.simps) simp
  qed
qed

lemma cost_reference_ok:
  assumes "horizon_ok n" "length vars = unat (n_vars n)" "i < n" "0 < length fg"
  shows "cost_reference n vars i fg = Inr (fg[0 := fg ! 0 + tracking_term n vars (unat i)])"
proof -
  note h = horizon_unat [OF assms(1)] and u = unat_starts [OF assms(1)]
  from assms(3) have i: "unat i < unat n" by (simp add: word_less_nat_alt)
  note idx = unat_index [OF assms(1) i]
  show ?thesis
    using h i assms(2,4)
    by (simp add: cost_reference_def vec_get_ok vec_add_to_ok idx u entry_def tracking_term_def
        factor_defs add.assoc [where ?'a = real])
qed

lemma cost_reference_loop:
  assumes "horizon_ok n" "length vars = unat (n_vars n)" "0 < length fg"
  shows "for_loop 0 n (cost_reference n vars) fg =
     Inr (fg[0 := fg ! 0 + (\<Sum>t<unat n. tracking_term n vars t)])"
proof -
  let ?I = "\<lambda>k g. g = fg[0 := fg ! 0 + (\<Sum>t<k. tracking_term n vars t)]"
  have "\<exists>t'. for_loop 0 n (cost_reference n vars) fg = Inr t' \<and> ?I (unat n) t'"
  proof (rule for_loop_inv)
    show "?I (unat (0 :: size_t)) fg" by simp
    show "0 \<le> n" by simp
    fix j t
    assume "j < n" "?I (unat j) t"
    then show "\<exists>t'. cost_reference n vars j t = Inr t' \<and> ?I (Suc (unat j)) t'"
      using assms by (simp add: cost_reference_ok add.assoc [where ?'a = real])
  qed
  then show ?thesis by auto
qed

lemma cost_actuators_ok:
  assumes "horizon_ok n" "length vars = unat (n_vars n)" "i < n - 1" "0 < length fg"
  shows "cost_actuators n vars i fg = Inr (fg[0 := fg ! 0 + effort_term n vars (unat i)])"
proof -
  note u = unat_starts [OF assms(1)]
  from assms(3) have i: "unat i < unat n - 1" by (simp add: word_less_nat_alt u)
  note g = vars_get [OF assms(1,2) i]
  show ?thesis
    using assms(4)
    by (simp add: cost_actuators_def g vec_add_to_ok effort_term_def factor_defs add.assoc [where ?'a = real])
qed

lemma cost_actuators_loop:
  assumes "horizon_ok n" "length vars = unat (n_vars n)" "0 < length fg"
  shows "for_loop 0 (n - 1) (cost_actuators n vars) fg =
     Inr (fg[0 := fg ! 0 + (\<Sum>t<unat n - 1. effort_term n vars t)])"
proof -
  let ?I = "\<lambda>k g. g = fg[0 := fg ! 0 + (\<Sum>t<k. effort_term n vars t)]"
  have "\<exists>t'. for_loop 0 (n - 1) (cost_actuators n vars) fg = Inr t' \<and> ?I (unat (n - 1)) t'"
  proof (rule for_loop_inv)
    show "?I (unat (0 :: size_t)) fg" by simp
    show "0 \<le> n - 1" by simp
    fix j t
    assume "j < n - 1" "?I (unat j) t"
    then show "\<exists>t'. cost_actuators n vars j t = Inr t' \<and> ?I (Suc (unat j)) t'"
      using assms by (simp add: cost_actuators_ok add.assoc [where ?'a = real])
  qed
  then show ?thesis by (auto simp: unat_starts [OF assms(1)])
qed

lemma cost_gap_ok:
  assumes "horizon_ok n" "length vars = unat (n_vars n)" "i < n - 2" "0 < length fg"
  shows "cost_gap n vars i fg = Inr (fg[0 := fg ! 0 + smoothness_term n vars (unat i)])"
proof -
  note u = unat_starts [OF assms(1)]
  from assms(3) have "unat i < unat n - 2" by (simp add: word_less_nat_alt u)
  then have i: "unat i < unat n - 1" by simp
  note idx = unat_index_Suc [OF assms(1) i]
  have len: "length vars = 8 * unat n - 2"
    using assms(2) by (simp add: u)
  have d1: "vec_get Vars vars (delta_start n + i + 1) = Inr (entry vars (delta_start n) (Suc (unat i)))"
    using \<open>unat i < unat n - 2\<close> len by (simp add: vec_get_def entry_def idx(7) u)
  have a1: "vec_get Vars vars (a_start n + i + 1) = Inr (entry vars (a_start n) (Suc (unat i)))"
    using \<open>unat i < unat n - 2\<close> len by (simp add: vec_get_def entry_def idx(8) u)
  note g = vars_get [OF assms(1,2) i]
  show ?thesis
    using assms(4)
    by (simp add: cost_gap_def g d1 a1 vec_add_to_ok smoothness_term_def factor_defs add.assoc [where ?'a = real])
qed

lemma cost_gap_loop:
  assumes "horizon_ok n" "length vars = unat (n_vars n)" "0 < length fg"
  shows "for_loop 0 (n - 2) (cost_gap n vars) fg =
     Inr (fg[0 := fg ! 0 + (\<Sum>t<unat n - 2. smoothness_term n vars t)])"
proof -
  let ?I = "\<lambda>k g. g = fg[0 := fg ! 0 + (\<Sum>t<k. smoothness_term n vars t)]"
  have "\<exists>t'. for_loop 0 (n - 2) (cost_gap n vars) fg = Inr t' \<and> ?I (unat (n - 2)) t'"
  proof (rule for_loop_inv)
    show "?I (unat (0 :: size_t)) fg" by simp
    show "0 \<le> n - 2" by simp
    fix j t
    assume "j < n - 2" "?I (unat j) t"
    then show "\<exists>t'. cost_gap n vars j t = Inr t' \<and> ?I (Suc (unat j)) t'"
      using assms by (simp add: cost_gap_ok add.assoc [where ?'a = real])
  qed
  then show ?thesis by (auto simp: unat_starts [OF assms(1)])
qed

lemma initial_state_ok:
  assumes "horizon_ok n" "length vars = unat (n_vars n)" "length fg = Suc (unat (n_constraints n))"
  shows "initial_state n vars fg = Inr (fg
     [1 + unat x_start := entry vars x_start 0,
      1 + unat (y_start n) := entry vars (y_start n) 0,
      1 + unat (psi_start n) := entry vars (psi_start n) 0,
      1 + unat (v_start n) := entry vars (v_start n) 0,
      1 + unat (cte_start n) := entry vars (cte_start n) 0,
      1 + unat (epsi_start n) := entry vars (epsi_start n) 0])"
proof -
  note h = horizon_unat [OF assms(1)] and u = unat_starts [OF assms(1)]
  have z: "unat (0 :: size_t) < unat n" using h by simp
  note idx = unat_fg_index(7-12) [OF assms(1) z]
  have len: "length vars = 8 * unat n - 2" "length fg = Suc (6 * unat n)"
    using assms(2,3) by (simp_all add: u)
  have g: "vec_get Vars vars x_start = Inr (entry vars x_start 0)"
    "vec_get Vars vars (y_start n) = Inr (entry vars (y_start n) 0)"
    "vec_get Vars vars (psi_start n) = Inr (entry vars (psi_start n) 0)"
    "vec_get Vars vars (v_start n) = Inr (entry vars (v_start n) 0)"
    "vec_get Vars vars (cte_start n) = Inr (entry vars (cte_start n) 0)"
    "vec_get Vars vars (epsi_start n) = Inr (entry vars (epsi_start n) 0)"
    using h len(1) by (simp_all add: vec_get_def entry_def u; arith)+
  have s: "\<And>g a. length g = length fg \<Longrightarrow> vec_set Fg g (1 + x_start) a = Inr (g[1 + unat x_start := a])"
    "\<And>g a. length g = length fg \<Longrightarrow> vec_set Fg g (1 + y_start n) a = Inr (g[1 + unat (y_start n) := a])"
    "\<And>g a. length g = length fg \<Longrightarrow> vec_set Fg g (1 + psi_start n) a = Inr (g[1 + unat (psi_start n) := a])"
    "\<And>g a. length g = length fg \<Longrightarrow> vec_set Fg g (1 + v_start n) a = Inr (g[1 + unat (v_start n) := a])"
    "\<And>g a. length g = length fg \<Longrightarrow> vec_set Fg g (1 + cte_start n) a = Inr (g[1 + unat (cte_start n) := a])"
    "\<And>g a. length g = length fg \<Longrightarrow> vec_set Fg g (1 + epsi_start n) a = Inr (g[1 + unat (epsi_start n) := a])"
    using h len(2) by (simp_all add: vec_set_def idx u)
  show ?thesis
    by (simp add: initial_state_def g s)
qed


lemma six_updates:
  fixes g :: "real list" and m j :: nat and r0 r1 r2 r3 r4 r5 :: real
  assumes "2 \<le> m" "j < m - 1" "length g = Suc (6 * m)"
  defines "g' \<equiv> g[2 + 0 + j := r0, 2 + m + j := r1, 2 + 2 * m + j := r2,
     2 + 3 * m + j := r3, 2 + 4 * m + j := r4, 2 + 5 * m + j := r5]"
  shows "length g' = length g" "g' ! 0 = g ! 0"
    "g' ! (1 + 0) = g ! (1 + 0)" "g' ! (1 + m) = g ! (1 + m)" "g' ! (1 + 2 * m) = g ! (1 + 2 * m)"
    "g' ! (1 + 3 * m) = g ! (1 + 3 * m)" "g' ! (1 + 4 * m) = g ! (1 + 4 * m)"
    "g' ! (1 + 5 * m) = g ! (1 + 5 * m)"
    "g' ! (2 + 0 + j) = r0" "g' ! (2 + m + j) = r1" "g' ! (2 + 2 * m + j) = r2"
    "g' ! (2 + 3 * m + j) = r3" "g' ! (2 + 4 * m + j) = r4" "g' ! (2 + 5 * m + j) = r5"
    "\<And>t. t < j \<Longrightarrow> g' ! (2 + 0 + t) = g ! (2 + 0 + t)"
    "\<And>t. t < j \<Longrightarrow> g' ! (2 + m + t) = g ! (2 + m + t)"
    "\<And>t. t < j \<Longrightarrow> g' ! (2 + 2 * m + t) = g ! (2 + 2 * m + t)"
    "\<And>t. t < j \<Longrightarrow> g' ! (2 + 3 * m + t) = g ! (2 + 3 * m + t)"
    "\<And>t. t < j \<Longrightarrow> g' ! (2 + 4 * m + t) = g ! (2 + 4 * m + t)"
    "\<And>t. t < j \<Longrightarrow> g' ! (2 + 5 * m + t) = g ! (2 + 5 * m + t)"
  using assms(1-3) unfolding g'_def
  by (simp_all add: nth_list_update)


lemma block_extended:
  fixes g g' :: "real list"
  assumes "\<And>t. t < j \<Longrightarrow> g' ! (c + t) = g ! (c + t)" and "g' ! (c + j) = r j"
    and "\<forall>t<j. g ! (c + t) = r t" and "t < Suc j"
  shows "g' ! (c + t) = r t"
  using assms by (cases "t = j") auto

lemma predict_step:
  assumes ok: "horizon_ok n" and lv: "length vars = unat (n_vars n)"
    and lf: "length fg = Suc (unat (n_constraints n))" and lc: "4 \<le> length cs"
    and j: "j < n - 1" and inv: "predicted_upto n cs vars fg (unat j) g"
  shows "\<exists>g'. predict n cs vars j g = Inr g' \<and> predicted_upto n cs vars fg (Suc (unat j)) g'"
proof -
  note h = horizon_unat [OF ok] and u = unat_starts [OF ok]
  from j have j1: "unat j < unat n - 1" by (simp add: word_less_nat_alt u)
  from inv have lg: "length g = Suc (unat (n_constraints n))"
    using lf by (simp add: predicted_upto_def)
  have m: "2 \<le> unat n" using h by simp
  have lg': "length g = Suc (6 * unat n)" using lg by (simp add: u)
  note six = six_updates [OF m j1 lg']
  from inv have a: "length g = length fg" "g ! 0 = fg ! 0"
    "g ! (1 + 0) = fg ! (1 + 0)" "g ! (1 + unat n) = fg ! (1 + unat n)"
    "g ! (1 + 2 * unat n) = fg ! (1 + 2 * unat n)" "g ! (1 + 3 * unat n) = fg ! (1 + 3 * unat n)"
    "g ! (1 + 4 * unat n) = fg ! (1 + 4 * unat n)" "g ! (1 + 5 * unat n) = fg ! (1 + 5 * unat n)"
    unfolding predicted_upto_def u by blast+
  from inv have b: "\<forall>t<unat j. g ! (2 + 0 + t) = residual_x n vars t"
    "\<forall>t<unat j. g ! (2 + unat n + t) = residual_y n vars t"
    "\<forall>t<unat j. g ! (2 + 2 * unat n + t) = residual_psi n vars t"
    "\<forall>t<unat j. g ! (2 + 3 * unat n + t) = residual_v n vars t"
    "\<forall>t<unat j. g ! (2 + 4 * unat n + t) = residual_cte n cs vars t"
    "\<forall>t<unat j. g ! (2 + 5 * unat n + t) = residual_epsi n cs vars t"
    unfolding predicted_upto_def u by blast+
  have "predicted_upto n cs vars fg (Suc (unat j))
     (g[2 + unat x_start + unat j := residual_x n vars (unat j),
        2 + unat (y_start n) + unat j := residual_y n vars (unat j),
        2 + unat (psi_start n) + unat j := residual_psi n vars (unat j),
        2 + unat (v_start n) + unat j := residual_v n vars (unat j),
        2 + unat (cte_start n) + unat j := residual_cte n cs vars (unat j),
        2 + unat (epsi_start n) + unat j := residual_epsi n cs vars (unat j)])"
    unfolding predicted_upto_def u
  proof (intro conjI allI impI)
    fix t
    assume t: "t < Suc (unat j)"
    show "g[2 + 0 + unat j := residual_x n vars (unat j),
        2 + unat n + unat j := residual_y n vars (unat j),
        2 + 2 * unat n + unat j := residual_psi n vars (unat j),
        2 + 3 * unat n + unat j := residual_v n vars (unat j),
        2 + 4 * unat n + unat j := residual_cte n cs vars (unat j),
        2 + 5 * unat n + unat j := residual_epsi n cs vars (unat j)] ! (2 + 0 + t) = residual_x n vars t"
      by (rule block_extended [OF six(15) six(9) b(1) t])
    show "g[2 + 0 + unat j := residual_x n vars (unat j),
        2 + unat n + unat j := residual_y n vars (unat j),
        2 + 2 * unat n + unat j := residual_psi n vars (unat j),
        2 + 3 * unat n + unat j := residual_v n vars (unat j),
        2 + 4 * unat n + unat j := residual_cte n cs vars (unat j),
        2 + 5 * unat n + unat j := residual_epsi n cs vars (unat j)] ! (2 + unat n + t) = residual_y n vars t"
      by (rule block_extended [OF six(16) six(10) b(2) t])
    show "g[2 + 0 + unat j := residual_x n vars (unat j),
        2 + unat n + unat j := residual_y n vars (unat j),
        2 + 2 * unat n + unat j := residual_psi n vars (unat j),
        2 + 3 * unat n + unat j := residual_v n vars (unat j),
        2 + 4 * unat n + unat j := residual_cte n cs vars (unat j),
        2 + 5 * unat n + unat j := residual_epsi n cs vars (unat j)] ! (2 + 2 * unat n + t) = residual_psi n vars t"
      by (rule block_extended [OF six(17) six(11) b(3) t])
    show "g[2 + 0 + unat j := residual_x n vars (unat j),
        2 + unat n + unat j := residual_y n vars (unat j),
        2 + 2 * unat n + unat j := residual_psi n vars (unat j),
        2 + 3 * unat n + unat j := residual_v n vars (unat j),
        2 + 4 * unat n + unat j := residual_cte n cs vars (unat j),
        2 + 5 * unat n + unat j := residual_epsi n cs vars (unat j)] ! (2 + 3 * unat n + t) = residual_v n vars t"
      by (rule block_extended [OF six(18) six(12) b(4) t])
    show "g[2 + 0 + unat j := residual_x n vars (unat j),
        2 + unat n + unat j := residual_y n vars (unat j),
        2 + 2 * unat n + unat j := residual_psi n vars (unat j),
        2 + 3 * unat n + unat j := residual_v n vars (unat j),
        2 + 4 * unat n + unat j := residual_cte n cs vars (unat j),
        2 + 5 * unat n + unat j := residual_epsi n cs vars (unat j)] ! (2 + 4 * unat n + t) = residual_cte n cs vars t"
      by (rule block_extended [OF six(19) six(13) b(5) t])
    show "g[2 + 0 + unat j := residual_x n vars (unat j),
        2 + unat n + unat j := residual_y n vars (unat j),
        2 + 2 * unat n + unat j := residual_psi n vars (unat j),
        2 + 3 * unat n + unat j := residual_v n vars (unat j),
        2 + 4 * unat n + unat j := residual_cte n cs vars (unat j),
        2 + 5 * unat n + unat j := residual_epsi n cs vars (unat j)] ! (2 + 5 * unat n + t) = residual_epsi n cs vars t"
      by (rule block_extended [OF six(20) six(14) b(6) t])
  qed (simp_all only: six a)
  then show ?thesis
    by (simp add: predict_ok [OF ok lv j lg lc])
qed

lemma predict_loop:
  assumes ok: "horizon_ok n" and lv: "length vars = unat (n_vars n)"
    and lf: "length fg = Suc (unat (n_constraints n))" and lc: "4 \<le> length cs"
  shows "\<exists>g. for_loop 0 (n - 1) (predict n cs vars) fg = Inr g \<and>
     predicted_upto n cs vars fg (unat n - 1) g"
proof -
  have "\<exists>g. for_loop 0 (n - 1) (predict n cs vars) fg = Inr g \<and>
     predicted_upto n cs vars fg (unat (n - 1)) g"
  proof (rule for_loop_inv)
    show "predicted_upto n cs vars fg (unat (0 :: size_t)) fg"
      by (simp add: predicted_upto_def)
    show "0 \<le> n - 1" by simp
    fix j t
    assume "j < n - 1" "predicted_upto n cs vars fg (unat j) t"
    then show "\<exists>t'. predict n cs vars j t = Inr t' \<and> predicted_upto n cs vars fg (Suc (unat j)) t'"
      by (rule predict_step [OF ok lv lf lc])
  qed
  then show ?thesis by (simp add: unat_starts [OF ok])
qed


lemma init_updates:
  fixes g :: "real list" and m :: nat and r0 r1 r2 r3 r4 r5 :: real
  assumes "2 \<le> m" "length g = Suc (6 * m)"
  defines "g' \<equiv> g[1 + 0 := r0, 1 + m := r1, 1 + 2 * m := r2,
     1 + 3 * m := r3, 1 + 4 * m := r4, 1 + 5 * m := r5]"
  shows "length g' = length g" "g' ! 0 = g ! 0"
    "g' ! (1 + 0) = r0" "g' ! (1 + m) = r1" "g' ! (1 + 2 * m) = r2"
    "g' ! (1 + 3 * m) = r3" "g' ! (1 + 4 * m) = r4" "g' ! (1 + 5 * m) = r5"
  using assms(1,2) unfolding g'_def
  by (simp_all add: nth_list_update)

lemma FG_eval_prefix:
  assumes ok: "horizon_ok n" and lv: "length vars = unat (n_vars n)"
    and lf: "length fg = Suc (unat (n_constraints n))"
  shows "FG_eval_operator n this fg vars =
     for_loop 0 (n - 1) (predict n (coeffs this) vars) (before_prediction n vars fg)"
proof -
  define c where "c = fg[0 := total_cost n vars]"
  have lc: "length c = Suc (unat (n_constraints n))"
    using lf by (simp add: c_def)
  have s0: "vec_set Fg fg 0 0 = Inr (fg[0 := 0])"
    using lf by (simp add: vec_set_def)
  have l1: "for_loop 0 n (cost_reference n vars) (fg[0 := 0]) =
      Inr (fg[0 := (\<Sum>t<unat n. tracking_term n vars t)])"
    using lf by (simp add: cost_reference_loop [OF ok lv])
  have l2: "for_loop 0 (n - 1) (cost_actuators n vars) (fg[0 := (\<Sum>t<unat n. tracking_term n vars t)]) =
      Inr (fg[0 := (\<Sum>t<unat n. tracking_term n vars t) + (\<Sum>t<unat n - 1. effort_term n vars t)])"
    using lf by (simp add: cost_actuators_loop [OF ok lv])
  have l3: "for_loop 0 (n - 2) (cost_gap n vars)
      (fg[0 := (\<Sum>t<unat n. tracking_term n vars t) + (\<Sum>t<unat n - 1. effort_term n vars t)]) = Inr c"
    using lf by (simp add: cost_gap_loop [OF ok lv] c_def total_cost_def)
  have l4: "initial_state n vars c = Inr (before_prediction n vars fg)"
    unfolding before_prediction_def c_def [symmetric] by (rule initial_state_ok [OF ok lv lc])
  show ?thesis
    by (simp only: FG_eval_operator_def s0 l1 l2 l3 l4 err_bind_simps)
qed

lemma FG_eval_result:
  assumes ok: "horizon_ok n" and lv: "length vars = unat (n_vars n)"
    and lf: "length fg = Suc (unat (n_constraints n))" and lc: "4 \<le> length (coeffs this)"
  shows "\<exists>g. FG_eval_operator n this fg vars = Inr g \<and> length g = length fg \<and>
     g ! 0 = total_cost n vars \<and>
     g ! (1 + unat x_start) = entry vars x_start 0 \<and>
     g ! (1 + unat (y_start n)) = entry vars (y_start n) 0 \<and>
     g ! (1 + unat (psi_start n)) = entry vars (psi_start n) 0 \<and>
     g ! (1 + unat (v_start n)) = entry vars (v_start n) 0 \<and>
     g ! (1 + unat (cte_start n)) = entry vars (cte_start n) 0 \<and>
     g ! (1 + unat (epsi_start n)) = entry vars (epsi_start n) 0 \<and>
     (\<forall>t<unat n - 1.
        g ! (2 + unat x_start + t) = residual_x n vars t \<and>
        g ! (2 + unat (y_start n) + t) = residual_y n vars t \<and>
        g ! (2 + unat (psi_start n) + t) = residual_psi n vars t \<and>
        g ! (2 + unat (v_start n) + t) = residual_v n vars t \<and>
        g ! (2 + unat (cte_start n) + t) = residual_cte n (coeffs this) vars t \<and>
        g ! (2 + unat (epsi_start n) + t) = residual_epsi n (coeffs this) vars t)"
proof -
  note h = horizon_unat [OF ok] and u = unat_starts [OF ok]
  have m: "2 \<le> unat n" using h by simp
  define c where "c = fg[0 := total_cost n vars]"
  define g4 where "g4 = before_prediction n vars fg"
  have g4: "g4 = c
     [1 + unat x_start := entry vars x_start 0,
      1 + unat (y_start n) := entry vars (y_start n) 0,
      1 + unat (psi_start n) := entry vars (psi_start n) 0,
      1 + unat (v_start n) := entry vars (v_start n) 0,
      1 + unat (cte_start n) := entry vars (cte_start n) 0,
      1 + unat (epsi_start n) := entry vars (epsi_start n) 0]"
    by (simp add: g4_def before_prediction_def c_def)
  have lc': "length c = Suc (6 * unat n)"
    using lf by (simp add: c_def u)
  note iu = init_updates [OF m lc']
  have lg4: "length g4 = Suc (unat (n_constraints n))"
    unfolding g4 u using lc' by (simp only: iu)
  obtain g where run: "for_loop 0 (n - 1) (predict n (coeffs this) vars) g4 = Inr g"
    and inv: "predicted_upto n (coeffs this) vars g4 (unat n - 1) g"
    using predict_loop [OF ok lv lg4 lc] by blast
  have c0: "c ! 0 = total_cost n vars"
    using lf by (simp add: c_def)
  have "FG_eval_operator n this fg vars = Inr g"
    using run by (simp only: FG_eval_prefix [OF ok lv lf] g4_def)
  moreover have "length g = length fg"
    using inv lg4 lf by (simp add: predicted_upto_def)
  moreover have "g ! 0 = total_cost n vars"
    using inv c0 unfolding predicted_upto_def g4 u by (simp only: iu)
  moreover have "g ! (1 + unat x_start) = entry vars x_start 0"
    "g ! (1 + unat (y_start n)) = entry vars (y_start n) 0"
    "g ! (1 + unat (psi_start n)) = entry vars (psi_start n) 0"
    "g ! (1 + unat (v_start n)) = entry vars (v_start n) 0"
    "g ! (1 + unat (cte_start n)) = entry vars (cte_start n) 0"
    "g ! (1 + unat (epsi_start n)) = entry vars (epsi_start n) 0"
    using inv unfolding predicted_upto_def g4 u by (simp_all only: iu)
  moreover have "\<forall>t<unat n - 1.
        g ! (2 + unat x_start + t) = residual_x n vars t \<and>
        g ! (2 + unat (y_start n) + t) = residual_y n vars t \<and>
        g ! (2 + unat (psi_start n) + t) = residual_psi n vars t \<and>
        g ! (2 + unat (v_start n) + t) = residual_v n vars t \<and>
        g ! (2 + unat (cte_start n) + t) = residual_cte n (coeffs this) vars t \<and>
        g ! (2 + unat (epsi_start n) + t) = residual_epsi n (coeffs this) vars t"
    using inv unfolding predicted_upto_def by blast
  ultimately show ?thesis by blast
qed

section \<open>Auxiliary facts about the driver\<close>

lemma length_filled [simp]: "length (filled a b c v) = length v"
  by (simp add: filled_def)

lemma nth_filled: "k < length v \<Longrightarrow> filled a b c v ! k = (if a \<le> k \<and> k < b then c else v ! k)"
  by (simp add: filled_def)

lemma filled_empty [simp]: "filled a a c v = v"
  by (rule nth_equalityI) (simp_all add: nth_filled)

lemma filled_step: "a \<le> j \<Longrightarrow> j < length v \<Longrightarrow> (filled a j c v)[j := c] = filled a (Suc j) c v"
  by (rule nth_equalityI) (auto simp: nth_filled nth_list_update)

lemma filled_all: "filled 0 (length v) c v = replicate (length v) c"
  by (rule nth_equalityI) (simp_all add: nth_filled)

lemma fill_loop:
  assumes "a \<le> b" and "unat b \<le> length v"
  shows "for_loop a b (\<lambda>i v. vec_set nm v i c) v = Inr (filled (unat a) (unat b) c v)"
proof -
  let ?I = "\<lambda>k w. w = filled (unat a) k c v"
  have "\<exists>w. for_loop a b (\<lambda>i v. vec_set nm v i c) v = Inr w \<and> ?I (unat b) w"
  proof (rule for_loop_inv)
    show "?I (unat a) v" by simp
    show "a \<le> b" by (rule assms)
    fix j w
    assume j: "a \<le> j" "j < b" and w: "?I (unat j) w"
    from j assms(2) have "unat a \<le> unat j" "unat j < length v"
      by (simp_all add: word_le_nat_alt word_less_nat_alt)
    then show "\<exists>w'. vec_set nm w j c = Inr w' \<and> ?I (Suc (unat j)) w'"
      using w by (simp add: vec_set_def filled_step)
  qed
  then show ?thesis by blast
qed

lemma set_vars_bounds_loop:
  assumes "a \<le> b" and "unat b \<le> length ub" and "unat b \<le> length lb"
  shows "for_loop a b (set_vars_bounds hi lo) (ub, lb) =
     Inr (filled (unat a) (unat b) hi ub, filled (unat a) (unat b) lo lb)"
proof -
  let ?I = "\<lambda>k w. w = (filled (unat a) k hi ub, filled (unat a) k lo lb)"
  have "\<exists>w. for_loop a b (set_vars_bounds hi lo) (ub, lb) = Inr w \<and> ?I (unat b) w"
  proof (rule for_loop_inv)
    show "?I (unat a) (ub, lb)" by simp
    show "a \<le> b" by (rule assms)
    fix j w
    assume j: "a \<le> j" "j < b" and w: "?I (unat j) w"
    from j assms(2,3) have "unat a \<le> unat j" "unat j < length ub" "unat j < length lb"
      by (simp_all add: word_le_nat_alt word_less_nat_alt)
    then show "\<exists>w'. set_vars_bounds hi lo j w = Inr w' \<and> ?I (Suc (unat j)) w'"
      using w by (simp add: set_vars_bounds_def vec_set_def filled_step)
  qed
  then show ?thesis by blast
qed

lemma set_constraints_bounds_loop:
  assumes "unat b \<le> length lb" and "unat b \<le> length ub"
  shows "for_loop 0 b set_constraints_bounds (lb, ub) =
     Inr (filled 0 (unat b) 0 lb, filled 0 (unat b) 0 ub)"
proof -
  let ?I = "\<lambda>k w. w = (filled 0 k 0 lb, filled 0 k 0 ub)"
  have "\<exists>w. for_loop 0 b set_constraints_bounds (lb, ub) = Inr w \<and> ?I (unat b) w"
  proof (rule for_loop_inv)
    show "?I (unat (0 :: size_t)) (lb, ub)" by simp
    show "0 \<le> b" by simp
    fix j w
    assume j: "j < b" and w: "?I (unat j) w"
    from j assms have "unat j < length ub" "unat j < length lb"
      by (simp_all add: word_less_nat_alt)
    then show "\<exists>w'. set_constraints_bounds j w = Inr w' \<and> ?I (Suc (unat j)) w'"
      using w by (simp add: set_constraints_bounds_def vec_set_def filled_step)
  qed
  then show ?thesis by blast
qed

lemma set_init_state_ok:
  assumes "horizon_ok n" and "unat (n_constraints n) \<le> length v"
  shows "set_init_state nm n v x y psi v0 cte epsi =
     Inr (v[unat x_start := x, unat (y_start n) := y, unat (psi_start n) := psi,
            unat (v_start n) := v0, unat (cte_start n) := cte, unat (epsi_start n) := epsi])"
proof -
  note h = horizon_unat [OF assms(1)] and u = unat_starts [OF assms(1)]
  have len: "6 * unat n \<le> length v" using assms(2) by (simp add: u)
  have s: "\<And>w a. length w = length v \<Longrightarrow> vec_set nm w x_start a = Inr (w[unat x_start := a])"
    "\<And>w a. length w = length v \<Longrightarrow> vec_set nm w (y_start n) a = Inr (w[unat (y_start n) := a])"
    "\<And>w a. length w = length v \<Longrightarrow> vec_set nm w (psi_start n) a = Inr (w[unat (psi_start n) := a])"
    "\<And>w a. length w = length v \<Longrightarrow> vec_set nm w (v_start n) a = Inr (w[unat (v_start n) := a])"
    "\<And>w a. length w = length v \<Longrightarrow> vec_set nm w (cte_start n) a = Inr (w[unat (cte_start n) := a])"
    "\<And>w a. length w = length v \<Longrightarrow> vec_set nm w (epsi_start n) a = Inr (w[unat (epsi_start n) := a])"
    using h len by (auto simp: vec_set_def u)
  show ?thesis
    by (simp add: set_init_state_def s)
qed


lemma state_get:
  assumes "6 \<le> length state"
  shows "vec_get State state 0 = Inr (state ! 0)" "vec_get State state 1 = Inr (state ! 1)"
    "vec_get State state 2 = Inr (state ! 2)" "vec_get State state 3 = Inr (state ! 3)"
    "vec_get State state 4 = Inr (state ! 4)" "vec_get State state 5 = Inr (state ! 5)"
  using assms by (auto simp: vec_get_def)

lemma Solve_problem_ok:
  assumes ok: "horizon_ok n" and ls: "6 \<le> length state"
  shows "Solve_problem n u state cs = Inr
     \<lparr>options = solver_options,
      xi = pinned n state (replicate (unat (n_vars n)) 0),
      xl = filled (unat (a_start n)) (unat (n_vars n)) (- 1)
            (filled (unat (delta_start n)) (unat (a_start n)) (- M_PI / 8)
              (filled 0 (unat (delta_start n)) (- (10 ^ 19)) (replicate (unat (n_vars n)) u))),
      xu = filled (unat (a_start n)) (unat (n_vars n)) 1
            (filled (unat (delta_start n)) (unat (a_start n)) (M_PI / 8)
              (filled 0 (unat (delta_start n)) (10 ^ 19) (replicate (unat (n_vars n)) u))),
      gl = pinned n state (replicate (unat (n_constraints n)) 0),
      gu = pinned n state (replicate (unat (n_constraints n)) 0),
      fg_eval = \<lparr>coeffs = cs\<rparr>\<rparr>"
proof -
  note h = horizon_unat [OF ok] and u = unat_starts [OF ok]
  have nle: "unat (delta_start n) \<le> unat (a_start n)" "unat (a_start n) \<le> unat (n_vars n)"
    "unat (delta_start n) \<le> unat (n_vars n)" "unat (n_constraints n) \<le> unat (n_vars n)"
    unfolding u using h by arith+
  have le: "delta_start n \<le> a_start n" "a_start n \<le> n_vars n" "(0 :: size_t) \<le> delta_start n"
    using nle by (simp_all add: word_le_nat_alt)
  have l0: "for_loop 0 (n_vars n) (\<lambda>i vars. vec_set Vars vars i 0) (Dvector u (n_vars n)) =
      Inr (replicate (unat (n_vars n)) 0)"
    using filled_all [of "replicate (unat (n_vars n)) u" 0]
    by (simp add: fill_loop Dvector_def)
  have l1: "for_loop 0 (delta_start n) (set_vars_bounds (10 ^ 19) (- (10 ^ 19)))
      (Dvector u (n_vars n), Dvector u (n_vars n)) =
      Inr (filled 0 (unat (delta_start n)) (10 ^ 19) (replicate (unat (n_vars n)) u),
           filled 0 (unat (delta_start n)) (- (10 ^ 19)) (replicate (unat (n_vars n)) u))"
    using nle by (simp add: set_vars_bounds_loop Dvector_def)
  have l2: "for_loop (delta_start n) (a_start n) (set_vars_bounds (M_PI / 8) (- M_PI / 8))
      (filled 0 (unat (delta_start n)) (10 ^ 19) (replicate (unat (n_vars n)) u),
       filled 0 (unat (delta_start n)) (- (10 ^ 19)) (replicate (unat (n_vars n)) u)) =
      Inr (filled (unat (delta_start n)) (unat (a_start n)) (M_PI / 8)
             (filled 0 (unat (delta_start n)) (10 ^ 19) (replicate (unat (n_vars n)) u)),
           filled (unat (delta_start n)) (unat (a_start n)) (- M_PI / 8)
             (filled 0 (unat (delta_start n)) (- (10 ^ 19)) (replicate (unat (n_vars n)) u)))"
    using nle le by (intro set_vars_bounds_loop) simp_all
  have l3: "for_loop (a_start n) (n_vars n) (set_vars_bounds 1 (- 1))
      (filled (unat (delta_start n)) (unat (a_start n)) (M_PI / 8)
         (filled 0 (unat (delta_start n)) (10 ^ 19) (replicate (unat (n_vars n)) u)),
       filled (unat (delta_start n)) (unat (a_start n)) (- M_PI / 8)
         (filled 0 (unat (delta_start n)) (- (10 ^ 19)) (replicate (unat (n_vars n)) u))) =
      Inr (filled (unat (a_start n)) (unat (n_vars n)) 1
             (filled (unat (delta_start n)) (unat (a_start n)) (M_PI / 8)
               (filled 0 (unat (delta_start n)) (10 ^ 19) (replicate (unat (n_vars n)) u))),
           filled (unat (a_start n)) (unat (n_vars n)) (- 1)
             (filled (unat (delta_start n)) (unat (a_start n)) (- M_PI / 8)
               (filled 0 (unat (delta_start n)) (- (10 ^ 19)) (replicate (unat (n_vars n)) u))))"
    using nle le by (intro set_vars_bounds_loop) simp_all
  have l4: "for_loop 0 (n_constraints n) set_constraints_bounds
      (Dvector u (n_constraints n), Dvector u (n_constraints n)) =
      Inr (replicate (unat (n_constraints n)) 0, replicate (unat (n_constraints n)) 0)"
    using filled_all [of "replicate (unat (n_constraints n)) u" 0]
    by (simp add: set_constraints_bounds_loop Dvector_def)
  have i1: "\<And>x y psi v cte epsi. set_init_state Vars n (replicate (unat (n_vars n)) 0) x y psi v cte epsi =
      Inr ((replicate (unat (n_vars n)) 0)[unat x_start := x, unat (y_start n) := y,
        unat (psi_start n) := psi, unat (v_start n) := v, unat (cte_start n) := cte,
        unat (epsi_start n) := epsi])"
    using nle by (intro set_init_state_ok [OF ok]) simp
  have i2: "\<And>nm x y psi v cte epsi. set_init_state nm n (replicate (unat (n_constraints n)) 0) x y psi v cte epsi =
      Inr ((replicate (unat (n_constraints n)) 0)[unat x_start := x, unat (y_start n) := y,
        unat (psi_start n) := psi, unat (v_start n) := v, unat (cte_start n) := cte,
        unat (epsi_start n) := epsi])"
    by (intro set_init_state_ok [OF ok]) simp
  show ?thesis
    unfolding Solve_problem_def pinned_def
    by (simp only: l0 l1 l2 l3 l4 i1 i2 state_get [OF ls] err_bind_simps prod.case)
qed

lemma length_pinned [simp]: "length (pinned n state v) = length v"
  by (simp add: pinned_def)

lemma starts_distinct:
  assumes "horizon_ok n"
  shows "distinct [unat x_start, unat (y_start n), unat (psi_start n), unat (v_start n),
     unat (cte_start n), unat (epsi_start n)]"
proof -
  have "2 \<le> unat n" using horizon_unat [OF assms] by simp
  then show ?thesis
    unfolding unat_starts [OF assms] by simp
qed

lemma nth_pinned:
  assumes "horizon_ok n" and "unat (n_constraints n) \<le> length v" and "j < length v"
  shows "pinned n state v ! j =
     (if j = unat x_start then state ! 0
      else if j = unat (y_start n) then state ! 1
      else if j = unat (psi_start n) then state ! 2
      else if j = unat (v_start n) then state ! 3
      else if j = unat (cte_start n) then state ! 4
      else if j = unat (epsi_start n) then state ! 5
      else v ! j)"
proof -
  note u = unat_starts [OF assms(1)]
  have m: "2 \<le> unat n" using horizon_unat [OF assms(1)] by simp
  have "6 * unat n \<le> length v" using assms(2) by (simp add: u)
  with m have b: "0 < length v" "unat n < length v" "2 * unat n < length v"
    "3 * unat n < length v" "4 * unat n < length v" "5 * unat n < length v"
    by arith+
  from m b assms(3) show ?thesis
    unfolding pinned_def u by (simp add: nth_list_update)
qed

lemma nth_bounds:
  assumes "a \<le> b" "b \<le> c" "c \<le> length v" "j < c"
  shows "filled b c r3 (filled a b r2 (filled 0 a r1 v)) ! j =
     (if j < a then r1 else if j < b then r2 else r3)"
  using assms by (simp add: nth_filled)

lemma length_predicted_points [simp]: "length (predicted_points n sx k) = 2 * k"
  by (induction k) (simp_all add: predicted_points_def)

lemma predicted_points_Suc:
  "predicted_points n sx (Suc k) =
     predicted_points n sx k @ [entry sx x_start (k + 1), entry sx (y_start n) (k + 1)]"
  by (simp add: predicted_points_def)

lemma push_point_ok:
  assumes "horizon_ok n" and "unat (a_start n) < length sx" and "i < n - 1"
  shows "push_point n sx i r =
     Inr (r @ [entry sx x_start (unat i + 1), entry sx (y_start n) (unat i + 1)])"
proof -
  note h = horizon_unat [OF assms(1)] and u = unat_starts [OF assms(1)]
  from assms(3) have i: "unat i < unat n - 1" by (simp add: word_less_nat_alt u)
  note idx = unat_index_Suc(1,2) [OF assms(1) i]
  have "unat x_start + Suc (unat i) < length sx" "unat (y_start n) + Suc (unat i) < length sx"
    using assms(2) i h unfolding u by arith+
  then show ?thesis
    by (simp add: push_point_def vec_get_def idx entry_def Let_def)
qed

lemma push_point_loop:
  assumes "horizon_ok n" and "unat (a_start n) < length sx"
  shows "for_loop 0 (n - 1) (push_point n sx) r = Inr (r @ predicted_points n sx (unat n - 1))"
proof -
  let ?I = "\<lambda>k w. w = r @ predicted_points n sx k"
  have "\<exists>w. for_loop 0 (n - 1) (push_point n sx) r = Inr w \<and> ?I (unat (n - 1)) w"
  proof (rule for_loop_inv)
    show "?I (unat (0 :: size_t)) r" by (simp add: predicted_points_def)
    show "0 \<le> n - 1" by simp
    fix j w
    assume "j < n - 1" "?I (unat j) w"
    then show "\<exists>w'. push_point n sx j w = Inr w' \<and> ?I (Suc (unat j)) w'"
      by (simp add: push_point_ok [OF assms] predicted_points_Suc)
  qed
  then show ?thesis by (simp add: unat_starts [OF assms(1)])
qed

lemma Solve_result_ok:
  assumes "horizon_ok n" and "unat (a_start n) < length (sol_x solution)"
  shows "Solve_result n solution =
     Inr \<lparr>returned = [entry (sol_x solution) (delta_start n) 0, entry (sol_x solution) (a_start n) 0] @
                      predicted_points n (sol_x solution) (unat n - 1),
          printed_cost = sol_obj_value solution\<rparr>"
proof -
  note h = horizon_unat [OF assms(1)] and u = unat_starts [OF assms(1)]
  have "unat (delta_start n) < length (sol_x solution)"
    using assms(2) h unfolding u by arith
  then show ?thesis
    using assms(2)
    by (simp add: Solve_result_def Let_def vec_get_def push_point_loop [OF assms] entry_def)
qed

lemma Solve_result_status: "Solve_result n (solution\<lparr>sol_status := st\<rparr>) = Solve_result n solution"
  by (simp add: Solve_result_def)

lemma replicate_two_more: "replicate j a @ [a, a] = a # a # replicate j a"
  by (induction j) simp_all

lemma predicted_points_replicate:
  "unat x_start + k < m \<Longrightarrow> unat (y_start n) + k < m \<Longrightarrow>
     predicted_points n (replicate m a) k = replicate (2 * k) a"
proof (induction k)
  case 0
  show ?case by (simp add: predicted_points_def)
next
  case (Suc k)
  then show ?case
    by (simp add: predicted_points_Suc entry_def replicate_two_more)
qed

lemma replicate_30: "replicate 30 a = a # a # replicate 28 a"
proof -
  have "replicate (2 + 28) a = replicate 2 a @ replicate 28 a"
    by (rule replicate_add)
  then show ?thesis
    by (simp add: numeral_2_eq_2)
qed

lemma err_bind_not: "m \<noteq> Inl e \<Longrightarrow> (\<And>a. f a \<noteq> Inl e) \<Longrightarrow> err_bind m f \<noteq> Inl e"
  by (cases m) simp_all

lemma for_loop_not:
  assumes "\<And>j t. body j t \<noteq> Inl e"
  shows "for_loop i n body s \<noteq> Inl e"
  using assms
proof (induction i n body s rule: for_loop.induct)
  case (1 i n body s)
  show ?case
  proof (cases "i < n")
    case True
    show ?thesis
    proof (cases "body i s")
      case (Inl e')
      with "1.prems" [of i s] True show ?thesis
        by (subst for_loop.simps) auto
    next
      case (Inr s')
      with "1.IH" [OF True Inr "1.prems"] True show ?thesis
        by (subst for_loop.simps) simp
    qed
  next
    case False
    then show ?thesis
      by (subst for_loop.simps) simp
  qed
qed

lemma no_division_aux:
  "vec_get nm v i \<noteq> Inl DivisionByZero" "vec_set nm v i a \<noteq> Inl DivisionByZero"
  "vec_add_to nm v i a \<noteq> Inl DivisionByZero" "divide_checked b Lf \<noteq> Inl DivisionByZero"
  by (simp_all add: vec_get_def vec_set_def vec_add_to_def divide_by_Lf err_bind_def split: sum.splits)

lemma bodies_no_division:
  "cost_reference n vars i fg \<noteq> Inl DivisionByZero"
  "cost_actuators n vars i fg \<noteq> Inl DivisionByZero"
  "cost_gap n vars i fg \<noteq> Inl DivisionByZero"
  "initial_state n vars fg \<noteq> Inl DivisionByZero"
  "predict n cs vars i fg \<noteq> Inl DivisionByZero"
  unfolding cost_reference_def cost_actuators_def cost_gap_def initial_state_def predict_def Let_def
  by (intro err_bind_not no_division_aux)+

lemma predict_coeffs_short:
  assumes "horizon_ok n" "length vars = unat (n_vars n)" "i < n - 1" "length cs < 4"
  shows "predict n cs vars i fg = Inl (OutOfRange Coeffs)"
proof -
  note u = unat_starts [OF assms(1)]
  from assms(3) have i1: "unat i < unat n - 1" by (simp add: word_less_nat_alt u)
  note g = vars_get [OF assms(1,2) i1]
  have "err_bind (vec_get Coeffs cs 0) (\<lambda>c0.
     err_bind (vec_get Coeffs cs 1) (\<lambda>c1.
     err_bind (vec_get Coeffs cs 2) (\<lambda>c2.
     err_bind (vec_get Coeffs cs 3) (\<lambda>c3. k c0 c1 c2 c3)))) = Inl (OutOfRange Coeffs)" for k :: "real \<Rightarrow> real \<Rightarrow> real \<Rightarrow> real \<Rightarrow> error + real list"
    using assms(4) by (auto simp: vec_get_def)
  then show ?thesis
    unfolding predict_def by (simp only: g err_bind_simps)
qed

lemma pinned_entries:
  assumes "horizon_ok n" and "unat (n_constraints n) \<le> length v"
  shows "entry (pinned n state v) x_start 0 = state ! 0"
    "entry (pinned n state v) (y_start n) 0 = state ! 1"
    "entry (pinned n state v) (psi_start n) 0 = state ! 2"
    "entry (pinned n state v) (v_start n) 0 = state ! 3"
    "entry (pinned n state v) (cte_start n) 0 = state ! 4"
    "entry (pinned n state v) (epsi_start n) 0 = state ! 5"
proof -
  note u = unat_starts [OF assms(1)]
  have m: "2 \<le> unat n" using horizon_unat [OF assms(1)] by simp
  have "6 * unat n \<le> length v" using assms(2) by (simp add: u)
  with m have b: "0 < length v" "unat n < length v" "2 * unat n < length v"
    "3 * unat n < length v" "4 * unat n < length v" "5 * unat n < length v"
    by arith+
  from m b show "entry (pinned n state v) x_start 0 = state ! 0"
    unfolding entry_def pinned_def u by (simp add: nth_list_update)
  from m b show "entry (pinned n state v) (y_start n) 0 = state ! 1"
    unfolding entry_def pinned_def u by (simp add: nth_list_update)
  from m b show "entry (pinned n state v) (psi_start n) 0 = state ! 2"
    unfolding entry_def pinned_def u by (simp add: nth_list_update)
  from m b show "entry (pinned n state v) (v_start n) 0 = state ! 3"
    unfolding entry_def pinned_def u by (simp add: nth_list_update)
  from m b show "entry (pinned n state v) (cte_start n) 0 = state ! 4"
    unfolding entry_def pinned_def u by (simp add: nth_list_update)
  from m b show "entry (pinned n state v) (epsi_start n) 0 = state ! 5"
    unfolding entry_def pinned_def u by (simp add: nth_list_update)
qed

lemma driver_feeds_formulator:
  assumes ok: "horizon_ok n" and ls: "6 \<le> length state" and lc: "4 \<le> length cs"
    and lf: "length fg = Suc (unat (n_constraints n))"
  shows "\<exists>p g. Solve_problem n u state cs = Inr p \<and>
            length (xi p) = unat (n_vars n) \<and> length (xl p) = unat (n_vars n) \<and>
            length (xu p) = unat (n_vars n) \<and>
            FG_eval_operator n (fg_eval p) fg (xi p) = Inr g \<and>
            g ! (1 + unat x_start) = state ! 0 \<and> g ! (1 + unat (y_start n)) = state ! 1 \<and>
            g ! (1 + unat (psi_start n)) = state ! 2 \<and> g ! (1 + unat (v_start n)) = state ! 3 \<and>
            g ! (1 + unat (cte_start n)) = state ! 4 \<and> g ! (1 + unat (epsi_start n)) = state ! 5"
proof -
  note h = horizon_unat [OF ok] and u = unat_starts [OF ok]
  let ?xi = "pinned n state (replicate (unat (n_vars n)) 0)"
  let ?p = "\<lparr>options = solver_options,
      xi = ?xi,
      xl = filled (unat (a_start n)) (unat (n_vars n)) (- 1)
            (filled (unat (delta_start n)) (unat (a_start n)) (- M_PI / 8)
              (filled 0 (unat (delta_start n)) (- (10 ^ 19)) (replicate (unat (n_vars n)) u))),
      xu = filled (unat (a_start n)) (unat (n_vars n)) 1
            (filled (unat (delta_start n)) (unat (a_start n)) (M_PI / 8)
              (filled 0 (unat (delta_start n)) (10 ^ 19) (replicate (unat (n_vars n)) u))),
      gl = pinned n state (replicate (unat (n_constraints n)) 0),
      gu = pinned n state (replicate (unat (n_constraints n)) 0),
      fg_eval = \<lparr>coeffs = cs\<rparr>\<rparr>"
  have run: "Solve_problem n u state cs = Inr ?p"
    by (rule Solve_problem_ok [OF ok ls])
  have lv: "length ?xi = unat (n_vars n)" by simp
  have lc': "4 \<le> length (coeffs \<lparr>coeffs = cs\<rparr>)" using lc by simp
  have le: "unat (n_constraints n) \<le> length (replicate (unat (n_vars n)) (0 :: real))"
    unfolding length_replicate u using h by arith
  note e = pinned_entries [OF ok le, of state]
  obtain g where g: "FG_eval_operator n \<lparr>coeffs = cs\<rparr> fg ?xi = Inr g"
    "g ! (1 + unat x_start) = entry ?xi x_start 0"
    "g ! (1 + unat (y_start n)) = entry ?xi (y_start n) 0"
    "g ! (1 + unat (psi_start n)) = entry ?xi (psi_start n) 0"
    "g ! (1 + unat (v_start n)) = entry ?xi (v_start n) 0"
    "g ! (1 + unat (cte_start n)) = entry ?xi (cte_start n) 0"
    "g ! (1 + unat (epsi_start n)) = entry ?xi (epsi_start n) 0"
    using FG_eval_result [OF ok lv lf lc'] by blast
  have "length (xi ?p) = unat (n_vars n)" "length (xl ?p) = unat (n_vars n)"
    "length (xu ?p) = unat (n_vars n)" "fg_eval ?p = \<lparr>coeffs = cs\<rparr>" "xi ?p = ?xi"
    by simp_all
  with run g [unfolded e] show ?thesis
    by metis
qed

section \<open>Why the horizon must be at least 2\<close>

text \<open>
  At horizon 1 the bound \<^verbatim>\<open>N - 2\<close> of the third cost loop wraps around to
  \<open>2 ^ 64 - 1\<close>, and the first round of that loop reads \<^verbatim>\<open>vars[delta_start + 1]\<close>,
  entry 7 of a vector of 6. So 2 is the smallest horizon at which the evaluator
  stays inside its vectors, which is the lower bound in \<open>horizon_ok\<close>.
\<close>

lemma horizon_one_wraps:
  assumes "length vars = unat (n_vars 1)" and "length fg = Suc (unat (n_constraints 1))"
  shows "unat (n_vars 1) = 6" "unat (1 - 2 :: size_t) = 2 ^ 64 - 1"
    "FG_eval_operator 1 this fg vars = Inl (OutOfRange Vars)"
proof -
  show v: "unat (n_vars 1) = 6" by (simp add: start_defs)
  show "unat (1 - 2 :: size_t) = 2 ^ 64 - 1" by (simp add: unsigned_minus_1_eq_mask mask_eq_exp_minus_1)
  have lv: "length vars = 6" using assms(1) v by simp
  have lf: "length fg = 7" using assms(2) by (simp add: start_defs)
  have one: "for_loop 0 1 body s = body 0 s" for body :: "size_t \<Rightarrow> real list \<Rightarrow> error + real list" and s
    by (simp add: for_loop.simps [of 0 1] for_loop.simps [of 1 1] split: sum.splits)
  have none: "for_loop 0 0 body s = Inr s" for body :: "size_t \<Rightarrow> real list \<Rightarrow> error + real list" and s
    by (simp add: for_loop.simps [of 0 0])
  have w: "(0 :: size_t) < - 1"
    by (simp add: word_less_nat_alt unsigned_minus_1_eq_mask mask_eq_exp_minus_1)
  have gap: "for_loop 0 (- 1) (cost_gap 1 vars) s = Inl (OutOfRange Vars)" for s
    using lv w by (subst for_loop.simps) (simp add: cost_gap_def vec_get_def start_defs)
  show "FG_eval_operator 1 this fg vars = Inl (OutOfRange Vars)"
    using lv lf
    by (auto simp add: FG_eval_operator_def one none gap cost_reference_def cost_actuators_def
        vec_get_def vec_set_def vec_add_to_def start_defs)
qed

section \<open>The claims about the formulator\<close>

text \<open>
  C1. At every horizon without wrap-around (the source's \<open>N = 15\<close> among them), for
  every candidate vector \<open>vars\<close> of \<open>n_vars\<close> entries, every coefficient vector of
  at least four entries and every index \<open>i\<close> in \<open>[0, n - 1)\<close>, the evaluator returns,
  and the residual it writes for each of the six state components at timestep
  \<open>i + 1\<close> (constraint \<open>start + (i + 1)\<close>, one place further in \<open>fg\<close> because of the
  cost in entry 0) is the variable at timestep \<open>i + 1\<close> minus the prediction of the
  kinematic bicycle model from timestep \<open>i\<close>, with \<open>Lf = 2.67\<close>: in particular
  \<open>psi - (v / Lf) * delta * dt\<close> for the heading, \<open>(f x - y) + v * sin epsi * dt\<close> with
  the cubic \<open>f x = c0 + c1 x + c2 x^2 + c3 x^3\<close> for the cross-track error, and
  \<open>(psi - atan (c1 + 2 c2 x + 3 c3 x^2)) - (v / Lf) * delta * dt\<close> for the heading error.
\<close>

theorem residuals_obey_bicycle_model:
  assumes "horizon_ok n" and "length vars = unat (n_vars n)"
    and "length fg = Suc (unat (n_constraints n))" and "4 \<le> length (coeffs this)"
    and "i < unat n - 1"
  shows "\<exists>g. FG_eval_operator n this fg vars = Inr g \<and> Lf = 2.67 \<and>
     g ! (1 + (unat x_start + (i + 1))) = entry vars x_start (i + 1) -
       (entry vars x_start i + entry vars (v_start n) i * cos (entry vars (psi_start n) i) * dt) \<and>
     g ! (1 + (unat (y_start n) + (i + 1))) = entry vars (y_start n) (i + 1) -
       (entry vars (y_start n) i + entry vars (v_start n) i * sin (entry vars (psi_start n) i) * dt) \<and>
     g ! (1 + (unat (psi_start n) + (i + 1))) = entry vars (psi_start n) (i + 1) -
       (entry vars (psi_start n) i - (entry vars (v_start n) i / Lf) * entry vars (delta_start n) i * dt) \<and>
     g ! (1 + (unat (v_start n) + (i + 1))) = entry vars (v_start n) (i + 1) -
       (entry vars (v_start n) i + entry vars (a_start n) i * dt) \<and>
     g ! (1 + (unat (cte_start n) + (i + 1))) = entry vars (cte_start n) (i + 1) -
       (((coeffs this ! 0 + coeffs this ! 1 * entry vars x_start i +
          coeffs this ! 2 * entry vars x_start i ^ 2 +
          coeffs this ! 3 * entry vars x_start i ^ 3) - entry vars (y_start n) i) +
        entry vars (v_start n) i * sin (entry vars (epsi_start n) i) * dt) \<and>
     g ! (1 + (unat (epsi_start n) + (i + 1))) = entry vars (epsi_start n) (i + 1) -
       ((entry vars (psi_start n) i -
          arctan (coeffs this ! 1 + 2 * coeffs this ! 2 * entry vars x_start i +
                  3 * coeffs this ! 3 * entry vars x_start i ^ 2)) -
        (entry vars (v_start n) i / Lf) * entry vars (delta_start n) i * dt)"
proof -
  obtain g where run: "FG_eval_operator n this fg vars = Inr g"
    and res: "\<forall>t<unat n - 1.
        g ! (2 + unat x_start + t) = residual_x n vars t \<and>
        g ! (2 + unat (y_start n) + t) = residual_y n vars t \<and>
        g ! (2 + unat (psi_start n) + t) = residual_psi n vars t \<and>
        g ! (2 + unat (v_start n) + t) = residual_v n vars t \<and>
        g ! (2 + unat (cte_start n) + t) = residual_cte n (coeffs this) vars t \<and>
        g ! (2 + unat (epsi_start n) + t) = residual_epsi n (coeffs this) vars t"
    using FG_eval_result [OF assms(1-4)] by blast
  have sh: "\<And>b. 1 + (b + (i + 1)) = 2 + b + i"
    by simp
  from res assms(5) show ?thesis
    unfolding sh by (simp add: run residual_defs path_f_def path_psides_def Lf_def)
qed

text \<open>The heading residual of the first transition at \<open>N = 15\<close>, all variables 1.\<close>

theorem residuals_obey_bicycle_model_witness:
  "\<exists>g. FG_eval_operator N \<lparr>coeffs = [0, 0, 0, 0]\<rparr> (replicate 91 0) (replicate 118 1) = Inr g \<and>
     g ! 32 = 1 - (1 - (1 / 2.67) * 1 * dt)"
  using residuals_obey_bicycle_model [of N "replicate 118 1" "replicate 91 0" "\<lparr>coeffs = [0, 0, 0, 0]\<rparr>" 0]
  by (auto simp add: horizon_ok_def N_def start_defs entry_def Lf_def)

text \<open>
  C2. Under the same conditions the cost the evaluator leaves in \<open>fg[0]\<close> is the sum
  of the tracking terms for \<open>i\<close> in \<open>[0, n)\<close> with weights 3000, 500, 1 against the
  targets 0, 0, 40, the control-effort terms for \<open>i\<close> in \<open>[0, n - 1)\<close> with weights
  1, 1, and the smoothness terms on consecutive controls for \<open>i\<close> in \<open>[0, n - 2)\<close>
  with weights 200, 1.
\<close>

theorem cost_is_weighted_sum:
  assumes "horizon_ok n" and "length vars = unat (n_vars n)"
    and "length fg = Suc (unat (n_constraints n))" and "4 \<le> length (coeffs this)"
  shows "\<exists>g. FG_eval_operator n this fg vars = Inr g \<and>
     g ! 0 =
       (\<Sum>i<unat n. 3000 * (entry vars (cte_start n) i - 0) ^ 2 +
                    500 * (entry vars (epsi_start n) i - 0) ^ 2 +
                    1 * (entry vars (v_start n) i - 40) ^ 2) +
       (\<Sum>i<unat n - 1. 1 * (entry vars (delta_start n) i) ^ 2 +
                        1 * (entry vars (a_start n) i) ^ 2) +
       (\<Sum>i<unat n - 2. 200 * (entry vars (delta_start n) (i + 1) - entry vars (delta_start n) i) ^ 2 +
                        1 * (entry vars (a_start n) (i + 1) - entry vars (a_start n) i) ^ 2)"
  using FG_eval_result [OF assms]
  unfolding total_cost_def tracking_term_def effort_term_def smoothness_term_def by blast

text \<open>At \<open>N = 15\<close> and the zero vector only the speed terms remain: 15 times 1600.\<close>

theorem cost_is_weighted_sum_witness:
  "\<exists>g. FG_eval_operator N \<lparr>coeffs = [0, 0, 0, 0]\<rparr> (replicate 91 0) (replicate 118 0) = Inr g \<and>
     g ! 0 = 24000"
  using cost_is_weighted_sum [of N "replicate 118 0" "replicate 91 0" "\<lparr>coeffs = [0, 0, 0, 0]\<rparr>"]
  by (auto simp add: horizon_ok_def N_def start_defs entry_def)

text \<open>
  C9. The two divisions of the evaluator (lines 148 and 153) have the divisor \<open>Lf\<close>,
  the constant 2.67, which is not zero; so dividing by \<open>Lf\<close> always has a value, and
  no evaluation of the cost and the residuals, at any horizon, coefficient vector,
  \<open>fg\<close> and candidate vector, well-formed or not, ends in a division by zero.
\<close>

theorem no_division_by_zero:
  "Lf = 2.67 \<and> Lf \<noteq> 0 \<and> divide_checked a Lf = Inr (a / Lf) \<and>
   FG_eval_operator n this fg vars \<noteq> Inl DivisionByZero"
proof -
  have "FG_eval_operator n this fg vars \<noteq> Inl DivisionByZero"
    unfolding FG_eval_operator_def
    by (intro err_bind_not for_loop_not bodies_no_division no_division_aux)
  then show ?thesis
    by (simp add: Lf_def divide_checked_def)
qed


text \<open>
  C10. At every horizon without wrap-around, on vectors \<open>vars\<close> and \<open>fg\<close> of the sizes
  the driver and the solver use, the evaluator reads the coefficients 0 to 3 in the
  first round of the prediction loop whatever the values are: with fewer than four
  coefficients the evaluation ends in an out-of-range read of the coefficient vector,
  and with four or more it returns.
\<close>

theorem coefficients_read_unconditionally:
  assumes "horizon_ok n" and "length vars = unat (n_vars n)"
    and "length fg = Suc (unat (n_constraints n))"
  shows "(length (coeffs this) < 4 \<longrightarrow> FG_eval_operator n this fg vars = Inl (OutOfRange Coeffs)) \<and>
     (4 \<le> length (coeffs this) \<longrightarrow> (\<exists>g. FG_eval_operator n this fg vars = Inr g))"
proof (intro conjI impI)
  assume short: "length (coeffs this) < 4"
  have "unat (0 :: size_t) < unat (n - 1)"
    using horizon_unat [OF assms(1)] by (simp add: unat_starts [OF assms(1)])
  then have z: "(0 :: size_t) < n - 1"
    by (simp only: word_less_nat_alt)
  have "for_loop 0 (n - 1) (predict n (coeffs this) vars) (before_prediction n vars fg) =
      Inl (OutOfRange Coeffs)"
    using z by (subst for_loop.simps) (simp add: predict_coeffs_short [OF assms(1,2) z short])
  then show "FG_eval_operator n this fg vars = Inl (OutOfRange Coeffs)"
    by (simp only: FG_eval_prefix [OF assms])
next
  assume "4 \<le> length (coeffs this)"
  from FG_eval_result [OF assms this] show "\<exists>g. FG_eval_operator n this fg vars = Inr g"
    by blast
qed

text \<open>Three coefficients against four, at \<open>N = 15\<close>.\<close>

theorem coefficients_read_unconditionally_witness:
  "FG_eval_operator N \<lparr>coeffs = [1, 2, 3]\<rparr> (replicate 91 0) (replicate 118 0) = Inl (OutOfRange Coeffs) \<and>
   (\<exists>g. FG_eval_operator N \<lparr>coeffs = [1, 2, 3, 4]\<rparr> (replicate 91 0) (replicate 118 0) = Inr g)"
proof -
  have ok: "horizon_ok N" by (simp add: horizon_ok_def N_def)
  have lv: "length (replicate 118 (0 :: real)) = unat (n_vars N)"
    and lf: "length (replicate 91 (0 :: real)) = Suc (unat (n_constraints N))"
    by (simp_all add: N_def start_defs)
  from coefficients_read_unconditionally [OF ok lv lf, of "\<lparr>coeffs = [1, 2, 3]\<rparr>"]
    coefficients_read_unconditionally [OF ok lv lf, of "\<lparr>coeffs = [1, 2, 3, 4]\<rparr>"]
  show ?thesis by simp
qed

section \<open>The claims about the driver\<close>

text \<open>
  C3, as stated: all \<open>6 N\<close> constraint bounds are \<open>[0, 0]\<close> except those of the
  constraint indices 0 to 5, which are both set to the corresponding current-state
  value. The source does not do that: at \<open>N = 15\<close> and the state \<open>[1, 2, 3, 4, 5, 6]\<close>
  the bounds of constraint 1 are \<open>(0, 0)\<close> and not \<open>(2, 2)\<close>.
\<close>

theorem first_six_constraints_not_pinned:
  "constraint_bounds N 0 [1, 2, 3, 4, 5, 6] [] 1 = Some (0, 0) \<and>
   constraint_bounds N 0 [1, 2, 3, 4, 5, 6] [] 1 \<noteq> Some ([1, 2, 3, 4, 5, 6] ! 1, [1, 2, 3, 4, 5, 6] ! 1)"
proof -
  have ok: "horizon_ok N" by (simp add: horizon_ok_def N_def)
  have ls: "6 \<le> length [1, 2, 3, 4, 5, 6 :: real]" by simp
  have "pinned N [1, 2, 3, 4, 5, 6] (replicate (unat (n_constraints N)) 0) ! 1 = 0"
    by (subst nth_pinned [OF ok]) (simp_all add: N_def start_defs)
  then show ?thesis
    by (simp add: constraint_bounds_def Solve_problem_ok [OF ok ls])
qed


text \<open>
  C3, amended. For every state of at least six entries, the driver reaches the call
  of the solver with \<open>6 n\<close> constraint bounds, lower and upper bound equal at every
  index, and equal to 0 except at the six block starts \<open>x_start\<close>, \<open>y_start\<close>,
  \<open>psi_start\<close>, \<open>v_start\<close>, \<open>cte_start\<close>, \<open>epsi_start\<close> (that is 0, \<open>n\<close>, \<open>2 n\<close>,
  \<open>3 n\<close>, \<open>4 n\<close>, \<open>5 n\<close>), where both are the corresponding current-state value.
  These are the constraints whose residual the formulator sets to the variable of
  timestep 0 (lemma \<open>FG_eval_result\<close>).
\<close>

theorem constraint_bounds_pin_block_starts:
  assumes "horizon_ok n" and "6 \<le> length state"
  shows "\<exists>p. Solve_problem n u state cs = Inr p \<and>
     length (gl p) = unat (n_constraints n) \<and> length (gu p) = unat (n_constraints n) \<and>
     unat (n_constraints n) = 6 * unat n \<and>
     (\<forall>j<unat (n_constraints n).
        gu p ! j = gl p ! j \<and>
        gl p ! j =
          (if j = unat x_start then state ! 0
           else if j = unat (y_start n) then state ! 1
           else if j = unat (psi_start n) then state ! 2
           else if j = unat (v_start n) then state ! 3
           else if j = unat (cte_start n) then state ! 4
           else if j = unat (epsi_start n) then state ! 5
           else 0))"
  by (simp add: Solve_problem_ok [OF assms] nth_pinned [OF assms(1)] unat_starts [OF assms(1)])

text \<open>At \<open>N = 15\<close> the pinned constraints are 0, 15, 30, 45, 60 and 75.\<close>

theorem constraint_bounds_pin_block_starts_witness:
  "\<exists>p. Solve_problem N 7 [1, 2, 3, 4, 5, 6] [] = Inr p \<and>
     gl p ! 0 = 1 \<and> gl p ! 15 = 2 \<and> gl p ! 30 = 3 \<and> gl p ! 45 = 4 \<and> gl p ! 60 = 5 \<and> gl p ! 75 = 6 \<and>
     gl p ! 1 = 0 \<and> gu p ! 15 = 2"
proof -
  have ok: "horizon_ok N" by (simp add: horizon_ok_def N_def)
  have ls: "6 \<le> length [1, 2, 3, 4, 5, 6 :: real]" by simp
  from constraint_bounds_pin_block_starts [OF ok ls, of 7 "[]"]
  show ?thesis
    by (auto simp add: N_def start_defs)
qed

text \<open>
  C4. For every state of at least six entries, the driver reaches the call of the
  solver with \<open>6 n + 2 (n - 1)\<close> lower and upper variable bounds: \<open>-1e19\<close> and \<open>1e19\<close>
  on the \<open>6 n\<close> state variables, \<open>-\<pi>/8\<close> and \<open>\<pi>/8\<close> on the \<open>n - 1\<close> steering variables,
  \<open>-1\<close> and \<open>1\<close> on the \<open>n - 1\<close> acceleration variables; the three index ranges are
  pairwise disjoint and together they are all the variable indices.
\<close>

theorem variable_bounds_by_block:
  assumes "horizon_ok n" and "6 \<le> length state"
  shows "\<exists>p. Solve_problem n u state cs = Inr p \<and>
     length (xl p) = 6 * unat n + 2 * (unat n - 1) \<and>
     length (xu p) = 6 * unat n + 2 * (unat n - 1) \<and>
     unat (delta_start n) = 6 * unat n \<and>
     unat (a_start n) = unat (delta_start n) + (unat n - 1) \<and>
     unat (n_vars n) = unat (a_start n) + (unat n - 1) \<and>
     (\<forall>j<unat (delta_start n). xl p ! j = - (10 ^ 19) \<and> xu p ! j = 10 ^ 19) \<and>
     (\<forall>j. unat (delta_start n) \<le> j \<and> j < unat (a_start n) \<longrightarrow>
        xl p ! j = - pi / 8 \<and> xu p ! j = pi / 8) \<and>
     (\<forall>j. unat (a_start n) \<le> j \<and> j < unat (n_vars n) \<longrightarrow>
        xl p ! j = - 1 \<and> xu p ! j = 1) \<and>
     {0..<unat (delta_start n)} \<union> {unat (delta_start n)..<unat (a_start n)} \<union>
       {unat (a_start n)..<unat (n_vars n)} = {0..<length (xl p)} \<and>
     {0..<unat (delta_start n)} \<inter> {unat (delta_start n)..<unat (a_start n)} = {} \<and>
     {0..<unat (delta_start n)} \<inter> {unat (a_start n)..<unat (n_vars n)} = {} \<and>
     {unat (delta_start n)..<unat (a_start n)} \<inter> {unat (a_start n)..<unat (n_vars n)} = {}"
proof -
  note h = horizon_unat [OF assms(1)] and u = unat_starts [OF assms(1)]
  have o: "unat (delta_start n) \<le> unat (a_start n)" "unat (a_start n) \<le> unat (n_vars n)"
    unfolding u using h by arith+
  have s: "6 * unat n + 2 * (unat n - 1) = unat (n_vars n)"
    "unat (a_start n) = unat (delta_start n) + (unat n - 1)"
    "unat (n_vars n) = unat (a_start n) + (unat n - 1)"
    unfolding u using h by arith+
  have nb: "\<And>j r1 r2 r3. j < unat (n_vars n) \<Longrightarrow>
      filled (unat (a_start n)) (unat (n_vars n)) r3
        (filled (unat (delta_start n)) (unat (a_start n)) r2
          (filled 0 (unat (delta_start n)) r1 (replicate (unat (n_vars n)) u))) ! j =
      (if j < unat (delta_start n) then r1 else if j < unat (a_start n) then r2 else r3)"
    using o by (intro nth_bounds) simp_all
  have d: "{0..<unat (delta_start n)} \<union> {unat (delta_start n)..<unat (a_start n)} \<union>
       {unat (a_start n)..<unat (n_vars n)} = {0..<unat (n_vars n)}"
    using o by auto
  let ?p = "\<lparr>options = solver_options,
      xi = pinned n state (replicate (unat (n_vars n)) 0),
      xl = filled (unat (a_start n)) (unat (n_vars n)) (- 1)
            (filled (unat (delta_start n)) (unat (a_start n)) (- M_PI / 8)
              (filled 0 (unat (delta_start n)) (- (10 ^ 19)) (replicate (unat (n_vars n)) u))),
      xu = filled (unat (a_start n)) (unat (n_vars n)) 1
            (filled (unat (delta_start n)) (unat (a_start n)) (M_PI / 8)
              (filled 0 (unat (delta_start n)) (10 ^ 19) (replicate (unat (n_vars n)) u))),
      gl = pinned n state (replicate (unat (n_constraints n)) 0),
      gu = pinned n state (replicate (unat (n_constraints n)) 0),
      fg_eval = \<lparr>coeffs = cs\<rparr>\<rparr>"
  have run: "Solve_problem n u state cs = Inr ?p"
    by (rule Solve_problem_ok [OF assms])
  have len: "length (xl ?p) = unat (n_vars n)" "length (xu ?p) = unat (n_vars n)"
    by simp_all
  have lo: "\<And>j. j < unat (n_vars n) \<Longrightarrow> xl ?p ! j =
      (if j < unat (delta_start n) then - (10 ^ 19) else if j < unat (a_start n) then - pi / 8 else - 1)"
    by (simp only: nlp.simps nb M_PI_def)
  have hi: "\<And>j. j < unat (n_vars n) \<Longrightarrow> xu ?p ! j =
      (if j < unat (delta_start n) then 10 ^ 19 else if j < unat (a_start n) then pi / 8 else 1)"
    by (simp only: nlp.simps nb M_PI_def)
  have b1: "\<forall>j<unat (delta_start n). xl ?p ! j = - (10 ^ 19) \<and> xu ?p ! j = 10 ^ 19"
  proof (intro allI impI)
    fix j
    assume j: "j < unat (delta_start n)"
    with o have "j < unat (n_vars n)" by simp
    with j show "xl ?p ! j = - (10 ^ 19) \<and> xu ?p ! j = 10 ^ 19"
      by (simp only: lo hi if_True simp_thms)
  qed
  have b2: "\<forall>j. unat (delta_start n) \<le> j \<and> j < unat (a_start n) \<longrightarrow>
        xl ?p ! j = - pi / 8 \<and> xu ?p ! j = pi / 8"
  proof (intro allI impI)
    fix j
    assume j: "unat (delta_start n) \<le> j \<and> j < unat (a_start n)"
    with o have "j < unat (n_vars n)" "\<not> j < unat (delta_start n)" "j < unat (a_start n)"
      by simp_all
    then show "xl ?p ! j = - pi / 8 \<and> xu ?p ! j = pi / 8"
      by (simp only: lo hi if_True if_False simp_thms)
  qed
  have b3: "\<forall>j. unat (a_start n) \<le> j \<and> j < unat (n_vars n) \<longrightarrow>
        xl ?p ! j = - 1 \<and> xu ?p ! j = 1"
  proof (intro allI impI)
    fix j
    assume j: "unat (a_start n) \<le> j \<and> j < unat (n_vars n)"
    with o have "j < unat (n_vars n)" "\<not> j < unat (delta_start n)" "\<not> j < unat (a_start n)"
      by simp_all
    then show "xl ?p ! j = - 1 \<and> xu ?p ! j = 1"
      by (simp only: lo hi if_True if_False simp_thms)
  qed
  have e: "{0..<unat (delta_start n)} \<inter> {unat (delta_start n)..<unat (a_start n)} = {}"
    "{0..<unat (delta_start n)} \<inter> {unat (a_start n)..<unat (n_vars n)} = {}"
    "{unat (delta_start n)..<unat (a_start n)} \<inter> {unat (a_start n)..<unat (n_vars n)} = {}"
    using o by auto
  have len': "length (xl ?p) = 6 * unat n + 2 * (unat n - 1)"
    "length (xu ?p) = 6 * unat n + 2 * (unat n - 1)"
    unfolding len s(1) by (rule refl)+
  have d': "{0..<unat (delta_start n)} \<union> {unat (delta_start n)..<unat (a_start n)} \<union>
       {unat (a_start n)..<unat (n_vars n)} = {0..<length (xl ?p)}"
    unfolding len by (rule d)
  from run len' u(7) s(2,3) b1 b2 b3 d' e show ?thesis
    by blast
qed


text \<open>The ends of the three ranges at \<open>N = 15\<close>.\<close>

theorem variable_bounds_by_block_witness:
  "\<exists>p. Solve_problem N 7 [1, 2, 3, 4, 5, 6] [] = Inr p \<and>
     length (xl p) = 118 \<and> length (xu p) = 118 \<and>
     xl p ! 0 = - (10 ^ 19) \<and> xu p ! 89 = 10 ^ 19 \<and>
     xl p ! 90 = - pi / 8 \<and> xu p ! 103 = pi / 8 \<and>
     xl p ! 104 = - 1 \<and> xu p ! 117 = 1"
proof -
  have ok: "horizon_ok N" by (simp add: horizon_ok_def N_def)
  have ls: "6 \<le> length [1, 2, 3, 4, 5, 6 :: real]" by simp
  have v: "unat N = 15" "unat (delta_start N) = 90" "unat (a_start N) = 104" "unat (n_vars N) = 118"
    by (simp_all add: N_def start_defs)
  from variable_bounds_by_block [OF ok ls, of 7 "[]"]
  obtain p where p: "Solve_problem N 7 [1, 2, 3, 4, 5, 6] [] = Inr p"
    "length (xl p) = 6 * unat N + 2 * (unat N - 1)" "length (xu p) = 6 * unat N + 2 * (unat N - 1)"
    "\<forall>j<unat (delta_start N). xl p ! j = - (10 ^ 19) \<and> xu p ! j = 10 ^ 19"
    "\<forall>j. unat (delta_start N) \<le> j \<and> j < unat (a_start N) \<longrightarrow>
        xl p ! j = - pi / 8 \<and> xu p ! j = pi / 8"
    "\<forall>j. unat (a_start N) \<le> j \<and> j < unat (n_vars N) \<longrightarrow> xl p ! j = - 1 \<and> xu p ! j = 1"
    by blast
  from p(2,3) have "length (xl p) = 118" "length (xu p) = 118"
    by (simp_all add: v)
  moreover from p(4) have "xl p ! 0 = - (10 ^ 19)" "xu p ! 89 = 10 ^ 19"
    unfolding v by simp_all
  moreover from p(5) have "xl p ! 90 = - pi / 8" "xu p ! 103 = pi / 8"
    unfolding v by simp_all
  moreover from p(6) have "xl p ! 104 = - 1" "xu p ! 117 = 1"
    unfolding v by simp_all
  ultimately show ?thesis
    using p(1) by blast
qed

text \<open>
  C5. For every state of at least six entries and every coefficient vector, if the
  solver's solution vector reaches the start of the a-block, \<^verbatim>\<open>Solve\<close> returns, and the
  sequence it returns is the solution value at \<open>delta_start\<close>, the solution value at
  \<open>a_start\<close>, then the solution's \<open>(x, y)\<close> pair of timestep \<open>i + 1\<close> for each \<open>i\<close> in
  \<open>[0, n - 1)\<close> in order; its length is \<open>2 + 2 (n - 1)\<close> whatever the values are.
\<close>

theorem returned_sequence_shape:
  assumes "horizon_ok n" and "6 \<le> length state"
    and "\<forall>p. Solve_problem n u state cs = Inr p \<longrightarrow> unat (a_start n) < length (sol_x (ipopt_solve p))"
  shows "\<exists>p out. Solve_problem n u state cs = Inr p \<and> Solve n u ipopt_solve state cs = Inr out \<and>
     returned out =
       [entry (sol_x (ipopt_solve p)) (delta_start n) 0, entry (sol_x (ipopt_solve p)) (a_start n) 0] @
       concat (map (\<lambda>i. [entry (sol_x (ipopt_solve p)) x_start (i + 1),
                         entry (sol_x (ipopt_solve p)) (y_start n) (i + 1)]) [0..<unat n - 1]) \<and>
     length (returned out) = 2 + 2 * (unat n - 1)"
proof -
  obtain p where p: "Solve_problem n u state cs = Inr p"
    using Solve_problem_ok [OF assms(1,2)] by blast
  with assms(3) have "unat (a_start n) < length (sol_x (ipopt_solve p))"
    by blast
  note r = Solve_result_ok [OF assms(1) this]
  have "Solve n u ipopt_solve state cs = Solve_result n (ipopt_solve p)"
    by (simp add: Solve_def p)
  with p r show ?thesis
    using length_predicted_points [of n "sol_x (ipopt_solve p)" "unat n - 1"]
    by (simp add: predicted_points_def)
qed

text \<open>At \<open>N = 15\<close>, with a solution vector that holds its own indices.\<close>

theorem returned_sequence_shape_witness:
  "\<exists>p out. Solve_problem N 7 [1, 2, 3, 4, 5, 6] [] = Inr p \<and>
     Solve N 7 (stub_solver \<lparr>sol_status = success, sol_x = map real [0..<118], sol_obj_value = 3\<rparr>)
       [1, 2, 3, 4, 5, 6] [] = Inr out \<and>
     take 6 (returned out) = [90, 104, 1, 16, 2, 17] \<and> length (returned out) = 30"
proof -
  have ok: "horizon_ok N" by (simp add: horizon_ok_def N_def)
  have ls: "6 \<le> length [1, 2, 3, 4, 5, 6 :: real]" by simp
  have v: "unat N = 15" "unat (delta_start N) = 90" "unat (a_start N) = 104" "unat (y_start N) = 15"
    "unat x_start = 0"
    by (simp_all add: N_def start_defs)
  have sv: "\<forall>p. Solve_problem N 7 [1, 2, 3, 4, 5, 6] [] = Inr p \<longrightarrow> unat (a_start N) <
      length (sol_x (stub_solver \<lparr>sol_status = success, sol_x = map real [0..<118], sol_obj_value = 3\<rparr> p))"
    by (simp add: stub_solver_def v)
  have ft: "[0..<14] = 0 # 1 # [2..<14]"
    by (simp add: upt_conv_Cons)
  from returned_sequence_shape [OF ok ls sv]
  show ?thesis
    unfolding v stub_solver_def by (auto simp add: entry_def v ft)
qed


text \<open>
  C7, as stated: on a non-success status the caller receives both the solver status
  and the extracted values. The source returns the extracted values only: two
  solvers that differ in nothing but the status they report leave the same
  returned vector and the same printed cost.
\<close>

theorem status_lost:
  "Solve N 0 (stub_solver \<lparr>sol_status = not_success 1, sol_x = replicate 118 0, sol_obj_value = 0\<rparr>)
     [0, 0, 0, 10, 0, 0] [0, 0, 0, 0] =
   Solve N 0 (stub_solver \<lparr>sol_status = success, sol_x = replicate 118 0, sol_obj_value = 0\<rparr>)
     [0, 0, 0, 10, 0, 0] [0, 0, 0, 0] \<and>
   Solve N 0 (stub_solver \<lparr>sol_status = not_success 1, sol_x = replicate 118 0, sol_obj_value = 0\<rparr>)
     [0, 0, 0, 10, 0, 0] [0, 0, 0, 0] = Inr \<lparr>returned = replicate 30 0, printed_cost = 0\<rparr>"
proof -
  have ok: "horizon_ok N" by (simp add: horizon_ok_def N_def)
  have ls: "6 \<le> length [0, 0, 0, 10, 0, 0 :: real]" by simp
  have v: "unat N = 15" "unat (delta_start N) = 90" "unat (a_start N) = 104" "unat (y_start N) = 15"
    "unat x_start = 0"
    by (simp_all add: N_def start_defs)
  have c: "predicted_points N (replicate 118 0) 14 = replicate 28 0"
    by (simp add: predicted_points_replicate v)
  have "\<And>st. Solve N 0 (stub_solver \<lparr>sol_status = st, sol_x = replicate 118 0, sol_obj_value = 0\<rparr>)
     [0, 0, 0, 10, 0, 0] [0, 0, 0, 0] = Inr \<lparr>returned = replicate 30 0, printed_cost = 0\<rparr>"
    by (simp add: Solve_def Solve_problem_ok [OF ok ls] stub_solver_def Solve_result_ok [OF ok] v c
        replicate_30 entry_def)
  then show ?thesis by simp
qed

text \<open>
  C7, amended. When the solver reports a non-success status (and its solution
  vector reaches the start of the a-block), \<^verbatim>\<open>Solve\<close> still extracts the first-step
  commands and the predicted trajectory from the solution vector and prints the
  solver's cost; it substitutes nothing, and what the caller receives is exactly
  what it would receive had the status been success: the status itself is not
  passed on.
\<close>

theorem status_not_in_result:
  assumes "horizon_ok n" and "unat (a_start n) < length (sol_x solution)"
    and "sol_status solution \<noteq> success"
  shows "\<exists>out. Solve_result n solution = Inr out \<and>
     returned out =
       [entry (sol_x solution) (delta_start n) 0, entry (sol_x solution) (a_start n) 0] @
       concat (map (\<lambda>i. [entry (sol_x solution) x_start (i + 1),
                         entry (sol_x solution) (y_start n) (i + 1)]) [0..<unat n - 1]) \<and>
     printed_cost out = sol_obj_value solution \<and>
     Solve_result n (solution\<lparr>sol_status := success\<rparr>) = Inr out"
  unfolding Solve_result_status
  by (simp add: Solve_result_ok [OF assms(1,2)] predicted_points_def)

text \<open>A failed solve at \<open>N = 15\<close> whose solution vector is all fives.\<close>

theorem status_not_in_result_witness:
  "\<exists>out. Solve_result N \<lparr>sol_status = not_success 1, sol_x = replicate 118 5, sol_obj_value = 3\<rparr> = Inr out \<and>
     returned out = replicate 30 5 \<and> printed_cost out = 3 \<and>
     Solve_result N \<lparr>sol_status = success, sol_x = replicate 118 5, sol_obj_value = 3\<rparr> = Inr out"
proof -
  have ok: "horizon_ok N" by (simp add: horizon_ok_def N_def)
  have v: "unat N = 15" "unat (delta_start N) = 90" "unat (a_start N) = 104" "unat (y_start N) = 15"
    "unat x_start = 0"
    by (simp_all add: N_def start_defs)
  have c: "predicted_points N (replicate 118 5) 14 = replicate 28 5"
    by (simp add: predicted_points_replicate v)
  from status_not_in_result [of N "\<lparr>sol_status = not_success 1, sol_x = replicate 118 5, sol_obj_value = 3\<rparr>"]
  show ?thesis
    unfolding predicted_points_def [symmetric]
    using ok by (simp add: entry_def v replicate_30 c)
qed

section \<open>The claims about the layout\<close>

text \<open>
  C6. The block starts are the fixed functions \<open>0\<close>, \<open>n\<close>, \<open>2 n\<close>, \<open>3 n\<close>, \<open>4 n\<close>,
  \<open>5 n\<close>, \<open>6 n\<close> and \<open>7 n - 1\<close> of the horizon, and the vector has \<open>6 n + 2 (n - 1)\<close>
  entries, the a-block ending it: as identities of \<^verbatim>\<open>size_t\<close> at every horizon, and
  as identities of natural numbers at every horizon without wrap-around, where the
  delta-block and the a-block hold \<open>n - 1\<close> values each. Driver and formulator use
  the same starts: the start vector that the driver builds has exactly
  \<open>6 n + 2 (n - 1)\<close> entries, the formulator evaluates it without leaving it, and the
  initial-state residuals it reads at the six block starts are the six entries of
  the state that the driver stored there.
\<close>

theorem layout_offsets:
  "x_start = 0 \<and> y_start n = n \<and> psi_start n = 2 * n \<and> v_start n = 3 * n \<and>
   cte_start n = 4 * n \<and> epsi_start n = 5 * n \<and> delta_start n = 6 * n \<and>
   a_start n = 7 * n - 1 \<and> n_vars n = 6 * n + 2 * (n - 1) \<and> n_vars n = a_start n + (n - 1) \<and>
   (horizon_ok n \<longrightarrow>
      unat x_start = 0 \<and> unat (y_start n) = unat n \<and> unat (psi_start n) = 2 * unat n \<and>
      unat (v_start n) = 3 * unat n \<and> unat (cte_start n) = 4 * unat n \<and>
      unat (epsi_start n) = 5 * unat n \<and> unat (delta_start n) = 6 * unat n \<and>
      unat (a_start n) = 7 * unat n - 1 \<and>
      unat (a_start n) = unat (delta_start n) + (unat n - 1) \<and>
      unat (n_vars n) = unat (a_start n) + (unat n - 1) \<and>
      unat (n_vars n) = 6 * unat n + 2 * (unat n - 1) \<and>
      (\<forall>u state cs fg. 6 \<le> length state \<and> 4 \<le> length cs \<and> length fg = Suc (unat (n_constraints n)) \<longrightarrow>
         (\<exists>p g. Solve_problem n u state cs = Inr p \<and>
            length (xi p) = unat (n_vars n) \<and> length (xl p) = unat (n_vars n) \<and>
            length (xu p) = unat (n_vars n) \<and>
            FG_eval_operator n (fg_eval p) fg (xi p) = Inr g \<and>
            g ! (1 + unat x_start) = state ! 0 \<and> g ! (1 + unat (y_start n)) = state ! 1 \<and>
            g ! (1 + unat (psi_start n)) = state ! 2 \<and> g ! (1 + unat (v_start n)) = state ! 3 \<and>
            g ! (1 + unat (cte_start n)) = state ! 4 \<and> g ! (1 + unat (epsi_start n)) = state ! 5)))"
proof -
  have w: "x_start = 0" "y_start n = n" "psi_start n = 2 * n" "v_start n = 3 * n"
    "cte_start n = 4 * n" "epsi_start n = 5 * n" "delta_start n = 6 * n"
    "a_start n = 7 * n - 1" "n_vars n = 6 * n + 2 * (n - 1)" "n_vars n = a_start n + (n - 1)"
    by (simp_all add: start_defs)
  have r: "horizon_ok n \<longrightarrow>
      unat x_start = 0 \<and> unat (y_start n) = unat n \<and> unat (psi_start n) = 2 * unat n \<and>
      unat (v_start n) = 3 * unat n \<and> unat (cte_start n) = 4 * unat n \<and>
      unat (epsi_start n) = 5 * unat n \<and> unat (delta_start n) = 6 * unat n \<and>
      unat (a_start n) = 7 * unat n - 1 \<and>
      unat (a_start n) = unat (delta_start n) + (unat n - 1) \<and>
      unat (n_vars n) = unat (a_start n) + (unat n - 1) \<and>
      unat (n_vars n) = 6 * unat n + 2 * (unat n - 1) \<and>
      (\<forall>u state cs fg. 6 \<le> length state \<and> 4 \<le> length cs \<and> length fg = Suc (unat (n_constraints n)) \<longrightarrow>
         (\<exists>p g. Solve_problem n u state cs = Inr p \<and>
            length (xi p) = unat (n_vars n) \<and> length (xl p) = unat (n_vars n) \<and>
            length (xu p) = unat (n_vars n) \<and>
            FG_eval_operator n (fg_eval p) fg (xi p) = Inr g \<and>
            g ! (1 + unat x_start) = state ! 0 \<and> g ! (1 + unat (y_start n)) = state ! 1 \<and>
            g ! (1 + unat (psi_start n)) = state ! 2 \<and> g ! (1 + unat (v_start n)) = state ! 3 \<and>
            g ! (1 + unat (cte_start n)) = state ! 4 \<and> g ! (1 + unat (epsi_start n)) = state ! 5))"
  proof (intro conjI allI impI)
    assume ok: "horizon_ok n"
    note h = horizon_unat [OF ok] and u = unat_starts [OF ok]
    show "unat x_start = 0" "unat (y_start n) = unat n" "unat (psi_start n) = 2 * unat n"
      "unat (v_start n) = 3 * unat n" "unat (cte_start n) = 4 * unat n"
      "unat (epsi_start n) = 5 * unat n" "unat (delta_start n) = 6 * unat n"
      "unat (a_start n) = 7 * unat n - 1"
      by (rule u)+
    show "unat (a_start n) = unat (delta_start n) + (unat n - 1)"
      "unat (n_vars n) = unat (a_start n) + (unat n - 1)"
      "unat (n_vars n) = 6 * unat n + 2 * (unat n - 1)"
      unfolding u using h by arith+
    fix u :: real and state cs fg :: "real list"
    assume "6 \<le> length state \<and> 4 \<le> length cs \<and> length fg = Suc (unat (n_constraints n))"
    then show "\<exists>p g. Solve_problem n u state cs = Inr p \<and>
            length (xi p) = unat (n_vars n) \<and> length (xl p) = unat (n_vars n) \<and>
            length (xu p) = unat (n_vars n) \<and>
            FG_eval_operator n (fg_eval p) fg (xi p) = Inr g \<and>
            g ! (1 + unat x_start) = state ! 0 \<and> g ! (1 + unat (y_start n)) = state ! 1 \<and>
            g ! (1 + unat (psi_start n)) = state ! 2 \<and> g ! (1 + unat (v_start n)) = state ! 3 \<and>
            g ! (1 + unat (cte_start n)) = state ! 4 \<and> g ! (1 + unat (epsi_start n)) = state ! 5"
      using driver_feeds_formulator [OF ok] by blast
  qed
  show ?thesis
    by (intro conjI w r)
qed


text \<open>The layout at \<open>N = 15\<close>: the vector has 118 entries, and \<open>y\<close> of timestep 0 is entry 15.\<close>

theorem layout_offsets_witness:
  "unat (y_start N) = 15 \<and> unat (delta_start N) = 90 \<and> unat (a_start N) = 104 \<and>
   unat (n_vars N) = 118 \<and>
   (\<exists>p g. Solve_problem N 7 [1, 2, 3, 4, 5, 6] [1, 2, 3, 4] = Inr p \<and> length (xi p) = 118 \<and>
      FG_eval_operator N (fg_eval p) (replicate 91 0) (xi p) = Inr g \<and> g ! 16 = 2)"
proof -
  have ok: "horizon_ok N" by (simp add: horizon_ok_def N_def)
  have v: "unat N = 15" by (simp add: N_def)
  have c: "6 \<le> length [1, 2, 3, 4, 5, 6 :: real] \<and> 4 \<le> length [1, 2, 3, 4 :: real] \<and>
      length (replicate 91 (0 :: real)) = Suc (unat (n_constraints N))"
    by (simp add: N_def start_defs)
  from layout_offsets [of N] ok
  have a: "unat (y_start N) = unat N" "unat (delta_start N) = 6 * unat N"
    "unat (a_start N) = 7 * unat N - 1" "unat (n_vars N) = 6 * unat N + 2 * (unat N - 1)"
    and r: "\<forall>u state cs fg. 6 \<le> length state \<and> 4 \<le> length cs \<and> length fg = Suc (unat (n_constraints N)) \<longrightarrow>
         (\<exists>p g. Solve_problem N u state cs = Inr p \<and>
            length (xi p) = unat (n_vars N) \<and> length (xl p) = unat (n_vars N) \<and>
            length (xu p) = unat (n_vars N) \<and>
            FG_eval_operator N (fg_eval p) fg (xi p) = Inr g \<and>
            g ! (1 + unat x_start) = state ! 0 \<and> g ! (1 + unat (y_start N)) = state ! 1 \<and>
            g ! (1 + unat (psi_start N)) = state ! 2 \<and> g ! (1 + unat (v_start N)) = state ! 3 \<and>
            g ! (1 + unat (cte_start N)) = state ! 4 \<and> g ! (1 + unat (epsi_start N)) = state ! 5)"
    by blast+
  from r c obtain p g where "Solve_problem N 7 [1, 2, 3, 4, 5, 6] [1, 2, 3, 4] = Inr p"
    "length (xi p) = unat (n_vars N)" "FG_eval_operator N (fg_eval p) (replicate 91 0) (xi p) = Inr g"
    "g ! (1 + unat (y_start N)) = [1, 2, 3, 4, 5, 6] ! 1"
    by blast
  with a show ?thesis
    by (auto simp add: v)
qed

text \<open>
  C8, as stated: with horizon 2 the problem has 12 variables, 2 control entries and
  12 constraints. The source gives it \<open>6 N + 2 (N - 1) = 14\<close> variables: 12 is the
  number of state entries alone.
\<close>

theorem degenerate_horizon_has_14_variables:
  "problem_size 2 0 [0, 0, 0, 10, 0, 0] [0, 0, 0, 0] = Some (14, 12) \<and> unat (n_vars 2) \<noteq> 12"
proof -
  have ok: "horizon_ok 2" by (simp add: horizon_ok_def)
  have ls: "6 \<le> length [0, 0, 0, 10, 0, 0 :: real]" by simp
  have v: "unat (n_vars 2) = 14" "unat (n_constraints 2) = 12"
    by (simp_all add: start_defs)
  show ?thesis
    by (simp add: problem_size_def Solve_problem_ok [OF ok ls] v)
qed

text \<open>
  C8, amended. With horizon 2 the problem has 14 variables, of which the first 12
  are state entries and the last 2 control entries, and 12 constraints; the
  evaluator returns on every candidate vector of 14 entries (with \<open>fg\<close> of 13 entries
  and at least four coefficients), so none of its indices leaves a vector, and the
  driver builds the five vectors of the problem with 14, 14, 14, 12 and 12 entries.
\<close>

theorem degenerate_horizon:
  "unat (n_vars 2) = 14 \<and> unat (delta_start 2) = 12 \<and>
   unat (n_vars 2) - unat (delta_start 2) = 2 \<and> unat (n_constraints 2) = 12 \<and>
   (\<forall>this fg vars. length vars = 14 \<and> length fg = 13 \<and> 4 \<le> length (coeffs this) \<longrightarrow>
      (\<exists>g. FG_eval_operator 2 this fg vars = Inr g \<and> length g = 13)) \<and>
   (\<forall>u state cs. 6 \<le> length state \<longrightarrow>
      (\<exists>p. Solve_problem 2 u state cs = Inr p \<and> length (xi p) = 14 \<and> length (xl p) = 14 \<and>
         length (xu p) = 14 \<and> length (gl p) = 12 \<and> length (gu p) = 12))"
proof -
  have ok: "horizon_ok 2" by (simp add: horizon_ok_def)
  have v: "unat (n_vars 2) = 14" "unat (n_constraints 2) = 12" "unat (delta_start 2) = 12"
    by (simp_all add: start_defs)
  have f: "\<exists>g. FG_eval_operator 2 this fg vars = Inr g \<and> length g = 13"
    if "length vars = 14 \<and> length fg = 13 \<and> 4 \<le> length (coeffs this)"
    for this and fg vars :: "real list"
    using FG_eval_result [OF ok, of vars fg this] that by (auto simp add: v)
  have d: "\<exists>p. Solve_problem 2 u state cs = Inr p \<and> length (xi p) = 14 \<and> length (xl p) = 14 \<and>
         length (xu p) = 14 \<and> length (gl p) = 12 \<and> length (gu p) = 12"
    if "6 \<le> length state" for u and state cs :: "real list"
    by (simp add: Solve_problem_ok [OF ok that] v)
  from f d show ?thesis
    by (simp add: v)
qed

text \<open>The zero vector and the state of the specification's scenario, at horizon 2.\<close>

theorem degenerate_horizon_witness:
  "(\<exists>g. FG_eval_operator 2 \<lparr>coeffs = [0, 0, 0, 0]\<rparr> (replicate 13 0) (replicate 14 0) = Inr g \<and> length g = 13) \<and>
   (\<exists>p. Solve_problem 2 0 [0, 0, 0, 10, 0, 0] [0, 0, 0, 0] = Inr p \<and> length (xi p) = 14 \<and>
      length (gl p) = 12)"
proof -
  from degenerate_horizon
  have f: "\<forall>this fg vars. length vars = 14 \<and> length fg = 13 \<and> 4 \<le> length (coeffs this) \<longrightarrow>
      (\<exists>g. FG_eval_operator 2 this fg vars = Inr g \<and> length g = 13)"
    and d: "\<forall>u state cs. 6 \<le> length state \<longrightarrow>
      (\<exists>p. Solve_problem 2 u state cs = Inr p \<and> length (xi p) = 14 \<and> length (xl p) = 14 \<and>
         length (xu p) = 14 \<and> length (gl p) = 12 \<and> length (gu p) = 12)"
    by blast+
  have "\<exists>g. FG_eval_operator 2 \<lparr>coeffs = [0, 0, 0, 0]\<rparr> (replicate 13 0) (replicate 14 0) = Inr g \<and> length g = 13"
    using f [rule_format, of "replicate 14 0" "replicate 13 0" "\<lparr>coeffs = [0, 0, 0, 0]\<rparr>"] by simp
  moreover have "\<exists>p. Solve_problem 2 0 [0, 0, 0, 10, 0, 0] [0, 0, 0, 0] = Inr p \<and> length (xi p) = 14 \<and>
      length (gl p) = 12"
    using d [rule_format, of "[0, 0, 0, 10, 0, 0]" 0 "[0, 0, 0, 0]"] by auto
  ultimately show ?thesis by blast
qed


end
